theory Spec2Isabelle
  imports Main "HOL-Library.AList"
begin

section \<open>Python strings\<close>

text \<open>
  A Python \<open>str\<close> is modelled as a \<open>string\<close>; each \<open>char\<close> stands for one code point
  below 256. Code points above that range are outside the model.
\<close>

text \<open>\<open>sep.join(parts)\<close>\<close>

fun str_join :: "string \<Rightarrow> string list \<Rightarrow> string" where
  "str_join sep [] = []"
| "str_join sep [p] = p"
| "str_join sep (p # q # ps) = p @ sep @ str_join sep (q # ps)"

text \<open>\<open>s.strip(chars)\<close>: drops the leading and the trailing characters that are in \<open>chars\<close>.\<close>

definition py_strip :: "string \<Rightarrow> string \<Rightarrow> string" where
  "py_strip chars s =
     rev (dropWhile (\<lambda>c. c \<in> set chars) (rev (dropWhile (\<lambda>c. c \<in> set chars) s)))"

text \<open>
  \<open>s.replace(old, new)\<close>: every non-overlapping occurrence of \<open>old\<close>, from the left.
  For an empty \<open>old\<close> Python puts \<open>new\<close> before every character and at the end.
\<close>

function py_replace :: "string \<Rightarrow> string \<Rightarrow> string \<Rightarrow> string" where
  "py_replace old new s =
     (if s = [] then (if old = [] then new else [])
      else if old = [] then new @ hd s # py_replace old new (tl s)
      else if take (length old) s = old then new @ py_replace old new (drop (length old) s)
      else hd s # py_replace old new (tl s))"
  by pat_completeness auto
termination
  by (relation "measure (\<lambda>(old, new, s). length s)") auto

declare py_replace.simps [simp del]

text \<open>\<open>str(n)\<close> for an integer: decimal digits, a minus sign for a negative number.\<close>

definition digit_char :: "nat \<Rightarrow> char" where
  "digit_char d = ''0123456789abcdef'' ! d"

function str_nat :: "nat \<Rightarrow> string" where
  "str_nat n = (if n < 10 then [digit_char n] else str_nat (n div 10) @ [digit_char (n mod 10)])"
  by pat_completeness auto
termination
  by (relation "measure (\<lambda>n. n)") auto

declare str_nat.simps [simp del]

definition str_int :: "int \<Rightarrow> string" where
  "str_int i = (if i < 0 then CHR ''-'' # str_nat (nat (- i)) else str_nat (nat i))"

text \<open>
  \<open>json.dumps(s)[1:-1]\<close> with the default \<open>ensure_ascii=True\<close>: the quote and the backslash
  get a backslash, the control characters with a short form use it, and every other
  character outside \<open>' '..'~'\<close> becomes \<open>\u00xx\<close> in lower-case hexadecimal.
\<close>

definition json_escape_char :: "char \<Rightarrow> string" where
  "json_escape_char c =
     (let n = (of_char c :: nat) in
      if c = CHR 0x22 then [CHR 0x5C, CHR 0x22]
      else if c = CHR 0x5C then [CHR 0x5C, CHR 0x5C]
      else if c = CHR 0x0A then [CHR 0x5C, CHR ''n'']
      else if c = CHR 0x0D then [CHR 0x5C, CHR ''r'']
      else if c = CHR 0x09 then [CHR 0x5C, CHR ''t'']
      else if c = CHR 0x08 then [CHR 0x5C, CHR ''b'']
      else if c = CHR 0x0C then [CHR 0x5C, CHR ''f'']
      else if n < 32 \<or> 126 < n
        then [CHR 0x5C, CHR ''u'', CHR ''0'', CHR ''0'', digit_char (n div 16), digit_char (n mod 16)]
      else [c])"

definition json_escape :: "string \<Rightarrow> string" where
  "json_escape s = concat (map json_escape_char s)"

section \<open>Python values and exceptions\<close>

text \<open>
  The values of a settings attribute that are modelled: \<open>None\<close>, an integer, a string.
  Floating point is not modelled: an attribute that is only ever passed through \<open>str()\<close>
  (such as \<open>cfg\<close>) is represented by \<open>PStr\<close> of its rendering, which \<open>str()\<close> returns
  unchanged.
\<close>

datatype pyval = PNone | PInt int | PStr string

definition py_str :: "pyval \<Rightarrow> string" where
  "py_str v = (case v of PNone \<Rightarrow> ''None'' | PInt i \<Rightarrow> str_int i | PStr s \<Rightarrow> s)"

datatype py_error =
    AttributeError
  | TypeError
  | KeyError
  | FileNotFoundError
  | JSONDecodeError
  | RequestException
  | OtherError

text \<open>
  Sequencing of steps that may raise: the first exception ends the computation and is
  the result.
\<close>

definition raise_or :: "py_error + 'a \<Rightarrow> ('a \<Rightarrow> py_error + 'b) \<Rightarrow> py_error + 'b" where
  "raise_or m f = (case m of Inl e \<Rightarrow> Inl e | Inr x \<Rightarrow> f x)"

section \<open>comfyui.py\<close>

text \<open>
  \<open>ComfyUISettings\<close> is an attribute bag (\<open>self.__dict__.update(data)\<close>): a map from
  attribute names to values. Reading an attribute that is not there raises. The default
  bag is given without \<open>presets_name\<close> and \<open>prompt\<close>, which \<open>send_workflow\<close> never reads.
\<close>

type_synonym ComfyUISettings = "string \<rightharpoonup> pyval"

definition default_settings :: ComfyUISettings where
  "default_settings =
     [''latent_width'' \<mapsto> PInt 1216, ''latent_height'' \<mapsto> PInt 832, ''batch_size'' \<mapsto> PInt 1,
      ''seed'' \<mapsto> PStr ''RANDOM'', ''steps'' \<mapsto> PInt 20, ''cfg'' \<mapsto> PStr ''3.0'',
      ''checkpoint'' \<mapsto> PStr ''waiNSFWIllustrious_v120.safetensors'', ''lora'' \<mapsto> PStr '''']"

definition getattr :: "ComfyUISettings \<Rightarrow> string \<Rightarrow> py_error + pyval" where
  "getattr s a = (case s a of None \<Rightarrow> Inl AttributeError | Some v \<Rightarrow> Inr v)"

text \<open>\<open>workflow_str.replace(old, v)\<close> where \<open>v\<close> is used as it is: anything but a \<open>str\<close> raises.\<close>

definition replace_with :: "string \<Rightarrow> pyval \<Rightarrow> string \<Rightarrow> py_error + string" where
  "replace_with old v s = (case v of PStr new \<Rightarrow> Inr (py_replace old new s) | _ \<Rightarrow> Inl TypeError)"

text \<open>
  \<open>random.randint(a, b)\<close> returns an integer \<open>N\<close> with \<open>a <= N <= b\<close>, both ends included.
  The generator's state is the parameter \<open>entropy\<close>.
\<close>

definition randint :: "int \<Rightarrow> int \<Rightarrow> nat \<Rightarrow> int" where
  "randint a b entropy = a + int entropy mod (b - a + 1)"

text \<open>Lines 58 to 63: the template file that is opened.\<close>

definition template_path :: "pyval \<Rightarrow> string" where
  "template_path lora =
     (if lora = PStr '''' \<or> lora = PNone then ''workflows/base.json''
      else ''workflows/base-lora.json'')"

definition read_file :: "(string \<rightharpoonup> string) \<Rightarrow> string \<Rightarrow> py_error + string" where
  "read_file fs path = (case fs path of None \<Rightarrow> Inl FileNotFoundError | Some text \<Rightarrow> Inr text)"

text \<open>Lines 74 to 77: the text that replaces \<open>%SEED%\<close>.\<close>

definition seed_text :: "pyval \<Rightarrow> nat \<Rightarrow> string" where
  "seed_text seed entropy =
     (if seed = PStr ''RANDOM'' \<or> seed = PInt (- 1) \<or> seed = PStr ''-1''
      then str_int (randint 0 (2 ^ 31 - 1) entropy)
      else py_str seed)"

text \<open>
  Lines 58 to 72: the template after the substitutions that come before the seed. The
  steps run in the source's order, and the first one that raises ends the call.
\<close>

definition workflow_before_seed ::
  "(string \<rightharpoonup> string) \<Rightarrow> ComfyUISettings \<Rightarrow> string \<Rightarrow> py_error + string" where
  "workflow_before_seed fs s prompt =
     raise_or (getattr s ''lora'') (\<lambda>lora.
     raise_or (read_file fs (template_path lora)) (\<lambda>w0.
     raise_or (getattr s ''checkpoint'') (\<lambda>checkpoint.
     raise_or (replace_with ''%CHECKPOINT%'' checkpoint w0) (\<lambda>w1.
     raise_or (replace_with ''%LORA%'' lora w1) (\<lambda>w2.
     raise_or (Inr (py_replace ''%PROMPT%'' (json_escape prompt) w2)) (\<lambda>w3.
     raise_or (getattr s ''latent_width'') (\<lambda>width.
     raise_or (Inr (py_replace ''%WIDTH%'' (py_str width) w3)) (\<lambda>w4.
     raise_or (getattr s ''latent_height'') (\<lambda>height.
     raise_or (Inr (py_replace ''%HEIGHT%'' (py_str height) w4)) (\<lambda>w5.
     raise_or (getattr s ''batch_size'') (\<lambda>batch.
     Inr (py_replace ''%BATCH_SIZE%'' (py_str batch) w5))))))))))))"

text \<open>
  Lines 58 to 79: the text handed to \<open>json.loads\<close>. \<open>entropy\<close> is the raw output the
  generator gives to the \<open>random.randint\<close> of line 75, if that line is reached.
\<close>

definition build_workflow_str ::
  "(string \<rightharpoonup> string) \<Rightarrow> ComfyUISettings \<Rightarrow> string \<Rightarrow> nat \<Rightarrow> py_error + string" where
  "build_workflow_str fs s prompt entropy =
     raise_or (workflow_before_seed fs s prompt) (\<lambda>w6.
     raise_or (getattr s ''seed'') (\<lambda>seed.
     raise_or (Inr (py_replace ''%SEED%'' (seed_text seed entropy) w6)) (\<lambda>w7.
     raise_or (getattr s ''steps'') (\<lambda>steps.
     raise_or (Inr (py_replace ''%STEPS%'' (py_str steps) w7)) (\<lambda>w8.
     raise_or (getattr s ''cfg'') (\<lambda>cfg.
     Inr (py_replace ''%CFG%'' (py_str cfg) w8)))))))"

text \<open>
  The generator of the \<open>random\<close> module is state shared by all calls: it is the sequence
  of the raw outputs still to come. A draw takes the first and leaves the rest.
  \<open>build_with_generator\<close> is the call together with the generator it leaves behind: line
  75 is reached, and draws, when lines 58 to 72 did not raise and the seed is one of the
  three values of line 74.
\<close>

type_synonym generator = "nat \<Rightarrow> nat"

definition random_randint :: "int \<Rightarrow> int \<Rightarrow> generator \<Rightarrow> int \<times> generator" where
  "random_randint a b g = (randint a b (g 0), (\<lambda>i. g (Suc i)))"

definition generator_after ::
  "(string \<rightharpoonup> string) \<Rightarrow> ComfyUISettings \<Rightarrow> string \<Rightarrow> generator \<Rightarrow> generator" where
  "generator_after fs s prompt g =
     (case workflow_before_seed fs s prompt of
        Inl e \<Rightarrow> g
      | Inr w6 \<Rightarrow>
         (case getattr s ''seed'' of
            Inl e \<Rightarrow> g
          | Inr seed \<Rightarrow>
             if seed = PStr ''RANDOM'' \<or> seed = PInt (- 1) \<or> seed = PStr ''-1''
             then snd (random_randint 0 (2 ^ 31 - 1) g)
             else g))"

definition build_with_generator ::
  "(string \<rightharpoonup> string) \<Rightarrow> ComfyUISettings \<Rightarrow> string \<Rightarrow> generator \<Rightarrow>
   (py_error + string) \<times> generator" where
  "build_with_generator fs s prompt g =
     (build_workflow_str fs s prompt (g 0), generator_after fs s prompt g)"

text \<open>
  The HTTP response as the code reads it: \<open>status_code\<close>, \<open>text\<close> (here \<open>body_text\<close>), and what \<open>json()\<close>
  gives (a value, or the exception it raises on a body that does not parse).
\<close>

datatype 'j response = Response (status_code: int) (body_text: string) (json_body: "py_error + 'j")

text \<open>
  The call returns \<open>None\<close> on every path that returns; what tells a success from a
  failure is the line it prints.
\<close>

datatype submission = Sent | Failed int string

definition submission_line :: "submission \<Rightarrow> string" where
  "submission_line r =
     (case r of Sent \<Rightarrow> ''Workflow sent successfully!''
      | Failed code body \<Rightarrow> ''Error: '' @ str_int code @ '' - '' @ body)"

text \<open>
  \<open>send_workflow\<close>. The parser \<open>json.loads\<close> and the transport \<open>requests.post\<close> are library
  code, taken as parameters: \<open>loads\<close> gives the parsed document or raises, \<open>post url doc\<close>
  gives the response or raises. Nothing in the function catches an exception.
\<close>

definition send_workflow ::
  "(string \<rightharpoonup> string) \<Rightarrow> (string \<Rightarrow> py_error + 'j) \<Rightarrow> (string \<Rightarrow> 'j \<Rightarrow> py_error + 'k response) \<Rightarrow>
   nat \<Rightarrow> string \<Rightarrow> ComfyUISettings \<Rightarrow> string \<Rightarrow> py_error + string" where
  "send_workflow fs loads post entropy base_url s prompt =
     raise_or (build_workflow_str fs s prompt entropy) (\<lambda>workflow_str.
     raise_or (loads workflow_str) (\<lambda>workflow_json.
     raise_or (post (base_url @ ''prompt'') workflow_json) (\<lambda>resp.
     if status_code resp = 200 then Inr (submission_line Sent)
     else Inr (submission_line (Failed (status_code resp) (body_text resp))))))"

section \<open>JSON documents\<close>

text \<open>
  What \<open>json.load\<close> returns. A number is an integer here (floating point is not modelled),
  an object is its list of members in document order, each key once.
\<close>

datatype json =
    JNull
  | JBool bool
  | JInt int
  | JStr string
  | JArr "json list"
  | JObj "(string \<times> json) list"

text \<open>Python's truth value of a parsed document (\<open>if x:\<close>).\<close>

definition py_truthy :: "json \<Rightarrow> bool" where
  "py_truthy j =
     (case j of JNull \<Rightarrow> False | JBool b \<Rightarrow> b | JInt i \<Rightarrow> i \<noteq> 0 | JStr s \<Rightarrow> s \<noteq> []
      | JArr xs \<Rightarrow> xs \<noteq> [] | JObj kvs \<Rightarrow> kvs \<noteq> [])"



section \<open>main.py: DataManager\<close>

text \<open>A JSON file on disk: not there, there with a text that does not parse, or a document.\<close>

datatype json_file = Missing | Unparsable | Doc json

definition default_categories :: "string list" where
  "default_categories = [''quality'', ''style'', ''character'', ''pose'', ''extra'']"

text \<open>\<open>cat in loaded_data\<close>, for whatever the document's top level is.\<close>

definition is_substring :: "string \<Rightarrow> string \<Rightarrow> bool" where
  "is_substring sub s = list_ex (\<lambda>n. take (length sub) (drop n s) = sub) [0 ..< Suc (length s)]"

definition py_contains :: "json \<Rightarrow> string \<Rightarrow> py_error + bool" where
  "py_contains container cat =
     (case container of
        JObj kvs \<Rightarrow> Inr (cat \<in> set (map fst kvs))
      | JArr xs \<Rightarrow> Inr (JStr cat \<in> set xs)
      | JStr s \<Rightarrow> Inr (is_substring cat s)
      | _ \<Rightarrow> Inl TypeError)"

text \<open>\<open>loaded_data[cat]\<close> with a string index.\<close>

definition py_getitem :: "json \<Rightarrow> string \<Rightarrow> py_error + json" where
  "py_getitem container cat =
     (case container of
        JObj kvs \<Rightarrow> (case map_of kvs cat of None \<Rightarrow> Inl KeyError | Some v \<Rightarrow> Inr v)
      | _ \<Rightarrow> Inl TypeError)"

text \<open>
  \<open>loaded_data[cat] and isinstance(loaded_data[cat][0], str)\<close>: a falsy value stops the
  \<open>and\<close>; otherwise element 0 is read, which raises on a number, a boolean or an object.
\<close>

definition is_legacy :: "json \<Rightarrow> py_error + bool" where
  "is_legacy v =
     (if \<not> py_truthy v then Inr False
      else case v of
        JArr xs \<Rightarrow> Inr (case hd xs of JStr _ \<Rightarrow> True | _ \<Rightarrow> False)
      | JStr s \<Rightarrow> Inr True
      | JObj kvs \<Rightarrow> Inl KeyError
      | _ \<Rightarrow> Inl TypeError)"

text \<open>\<open>[{"name": v, "value": v} for v in loaded_data[cat]]\<close>, reached for a list or a string.\<close>

definition name_value :: "json \<Rightarrow> json" where
  "name_value v = JObj [(''name'', v), (''value'', v)]"

definition upgrade_legacy :: "json \<Rightarrow> json" where
  "upgrade_legacy v =
     (case v of
        JArr xs \<Rightarrow> JArr (map name_value xs)
      | JStr s \<Rightarrow> JArr (map (\<lambda>c. name_value (JStr [c])) s)
      | _ \<Rightarrow> v)"

text \<open>One round of the loop over \<open>default_categories\<close>: the new \<open>data[cat]\<close>, if it is set.\<close>

definition load_category :: "json \<Rightarrow> string \<Rightarrow> py_error + json option" where
  "load_category loaded_data cat =
     raise_or (py_contains loaded_data cat) (\<lambda>present.
       if present then
         raise_or (py_getitem loaded_data cat) (\<lambda>v.
         raise_or (is_legacy v) (\<lambda>legacy.
           Inr (Some (if legacy then upgrade_legacy v else v))))
       else Inr None)"

fun load_loop :: "json \<Rightarrow> string list \<Rightarrow> (string \<times> json) list \<Rightarrow> py_error + (string \<times> json) list" where
  "load_loop loaded_data [] data = Inr data"
| "load_loop loaded_data (cat # cats) data =
     (case load_category loaded_data cat of
        Inl e \<Rightarrow> Inl e
      | Inr None \<Rightarrow> load_loop loaded_data cats data
      | Inr (Some v) \<Rightarrow> load_loop loaded_data cats (AList.update cat v data))"

text \<open>
  \<open>load_prompt_presets\<close>: the dictionary \<open>data\<close>, and whether the error box was shown.
  \<open>json.JSONDecodeError\<close> is caught (the file does not parse, before any category is
  read); the \<open>IndexError\<close> the handler also names cannot arise, since element 0 is read
  from non-empty values only; any other exception leaves the function.
\<close>

definition load_prompt_presets :: "json_file \<Rightarrow> py_error + (string \<times> json) list \<times> bool" where
  "load_prompt_presets file =
     (let data = map (\<lambda>cat. (cat, JArr [])) default_categories in
      case file of
        Missing \<Rightarrow> Inr (data, False)
      | Unparsable \<Rightarrow> Inr (data, True)
      | Doc loaded_data \<Rightarrow>
          raise_or (load_loop loaded_data default_categories data) (\<lambda>d. Inr (d, False)))"

text \<open>\<open>save_prompt_presets\<close>: the file now holds the dictionary as one JSON object.\<close>

definition save_prompt_presets :: "(string \<times> json) list \<Rightarrow> json_file" where
  "save_prompt_presets data = Doc (JObj data)"

text \<open>
  Equality of two dictionaries as Python has it: the same keys with the same values, in
  any order.
\<close>

definition dict_equal :: "(string \<times> json) list \<Rightarrow> (string \<times> json) list \<Rightarrow> bool" where
  "dict_equal a b = list_all (\<lambda>k. map_of a k = map_of b k) (map fst a @ map fst b)"

definition file_equal :: "json_file \<Rightarrow> json_file \<Rightarrow> bool" where
  "file_equal f g =
     (case (f, g) of (Doc (JObj a), Doc (JObj b)) \<Rightarrow> dict_equal a b | _ \<Rightarrow> f = g)"

text \<open>
  The fragment document of the specification: an object keyed by category names, each
  value a list of objects with a string \<open>name\<close> and a string \<open>value\<close>.
\<close>

definition is_fragment :: "json \<Rightarrow> bool" where
  "is_fragment j =
     (case j of
        JObj kvs \<Rightarrow>
          (case (map_of kvs ''name'', map_of kvs ''value'') of
             (Some (JStr n), Some (JStr v)) \<Rightarrow> True
           | _ \<Rightarrow> False)
      | _ \<Rightarrow> False)"

definition is_fragment_list :: "json \<Rightarrow> bool" where
  "is_fragment_list v = (case v of JArr xs \<Rightarrow> list_all is_fragment xs | _ \<Rightarrow> False)"

definition well_formed :: "json \<Rightarrow> bool" where
  "well_formed d =
     (case d of
        JObj kvs \<Rightarrow>
          distinct (map fst kvs) \<and>
          list_all (\<lambda>(k, v). k \<in> set default_categories \<and> is_fragment_list v) kvs
      | _ \<Rightarrow> False)"

text \<open>The legacy document: the category values are lists of plain strings.\<close>

definition is_string_list :: "json \<Rightarrow> bool" where
  "is_string_list v =
     (case v of JArr xs \<Rightarrow> list_all (\<lambda>x. case x of JStr _ \<Rightarrow> True | _ \<Rightarrow> False) xs | _ \<Rightarrow> False)"

definition legacy_document :: "json \<Rightarrow> bool" where
  "legacy_document d =
     (case d of
        JObj kvs \<Rightarrow>
          distinct (map fst kvs) \<and>
          list_all (\<lambda>(k, v). k \<in> set default_categories \<and> is_string_list v) kvs
      | _ \<Rightarrow> False)"

text \<open>
  Three documents: the fragments of the specification's example as they stand (two
  categories), the same with every category present, and a legacy document.
\<close>

definition example_fragments :: "(string \<times> json) list" where
  "example_fragments =
     [(''quality'', JArr [JObj [(''name'', JStr ''q1''), (''value'', JStr ''masterpiece'')]]),
      (''style'', JArr [JObj [(''name'', JStr ''anime''), (''value'', JStr ''anime style'')]])]"

definition example_complete :: "(string \<times> json) list" where
  "example_complete =
     [(''style'', JArr [JObj [(''name'', JStr ''anime''), (''value'', JStr ''anime style'')]]),
      (''quality'', JArr [JObj [(''name'', JStr ''q1''), (''value'', JStr ''masterpiece'')]]),
      (''character'', JArr []), (''pose'', JArr []), (''extra'', JArr [])]"

definition example_legacy :: "(string \<times> json) list" where
  "example_legacy = [(''quality'', JArr [JStr ''masterpiece'', JStr ''best quality''])]"

section \<open>main.py: MainApp.generate_prompt_string\<close>

datatype category = Quality | Style | Character | Pose | Extra

definition PROMPT_VALUE_ORDER :: "category list" where
  "PROMPT_VALUE_ORDER = [Quality, Style, Character, Pose, Extra]"

definition PROMPT_KEY_ORDER :: "category list" where
  "PROMPT_KEY_ORDER = [Character, Pose, Style, Extra, Quality]"

record fragment =
  frag_name :: string
  frag_value :: string

text \<open>
  The part of the window the handler works on: the two dictionaries, the file of
  generated prompts (\<open>None\<close> while it does not exist), the combobox variables of the four
  single-select categories (\<open>prompt_vars\<close> is never read at \<open>Extra\<close>), the rows of the
  extra listbox with the indices selected in it, and the rows of the generated listbox.
  The selection in the generated listbox, the preview text and the message boxes are
  left out.
\<close>

record app =
  generated_prompts :: "(string \<times> string) list"
  generated_prompts_file :: "(string \<times> string) list option"
  generated_listbox :: "string list"
  prompt_presets :: "category \<Rightarrow> fragment list"
  prompt_vars :: "category \<Rightarrow> string"
  extra_listbox :: "string list"
  extra_curselection :: "nat list"

text \<open>\<open>listbox.get(i)\<close>: the row, or the empty string for an index that has no row.\<close>

definition listbox_get :: "string list \<Rightarrow> nat \<Rightarrow> string" where
  "listbox_get rows i = (if i < length rows then rows ! i else [])"

text \<open>\<open>next((p["value"] for p in presets if p["name"] == name), None)\<close>\<close>

definition lookup_value :: "fragment list \<Rightarrow> string \<Rightarrow> string option" where
  "lookup_value presets n = map_option frag_value (find (\<lambda>p. frag_name p = n) presets)"

text \<open>\<open>if value: prompt_parts.append(value.strip(","))\<close>\<close>

definition append_value :: "string option \<Rightarrow> string list" where
  "append_value v = (case v of None \<Rightarrow> [] | Some x \<Rightarrow> if x = [] then [] else [py_strip '','' x])"

text \<open>What one category adds to \<open>prompt_parts\<close> (the body of the first loop).\<close>

definition value_parts :: "app \<Rightarrow> category \<Rightarrow> string list" where
  "value_parts st cat =
     (if cat = Extra then
        concat (map (\<lambda>i. append_value (lookup_value (prompt_presets st cat) (listbox_get (extra_listbox st) i)))
                    (extra_curselection st))
      else
        let selected_name = prompt_vars st cat in
        if selected_name \<noteq> [] then append_value (lookup_value (prompt_presets st cat) selected_name)
        else [])"

definition full_prompt :: "app \<Rightarrow> string" where
  "full_prompt st =
     str_join '', '' (filter (\<lambda>p. p \<noteq> []) (concat (map (value_parts st) PROMPT_VALUE_ORDER)))"

text \<open>\<open>extras = [self.extra_listbox.get(i) for i in selected_indices]\<close>\<close>

definition extras :: "app \<Rightarrow> string list" where
  "extras st = map (listbox_get (extra_listbox st)) (extra_curselection st)"

text \<open>What one category adds to \<open>key_parts\<close> (the body of the second loop).\<close>

definition key_part :: "app \<Rightarrow> category \<Rightarrow> string list" where
  "key_part st cat =
     (if cat = Extra then
        (if extra_curselection st \<noteq> [] then [str_join ''_'' (extras st)] else [])
      else [prompt_vars st cat])"

definition key_parts :: "app \<Rightarrow> string list" where
  "key_parts st = concat (map (key_part st) PROMPT_KEY_ORDER)"

definition final_key :: "app \<Rightarrow> string" where
  "final_key st = str_join ''-'' (filter (\<lambda>p. p \<noteq> []) (key_parts st))"

datatype generated = InvalidSelection | Generated string

text \<open>
  \<open>generate_prompt_string\<close>: the warning box and an early return for an empty key;
  otherwise the entry is stored (a Python dictionary keeps the place of a key that is
  already there and appends a new one), the file is rewritten and the listbox refilled.
\<close>

definition generate_prompt_string :: "app \<Rightarrow> app \<times> generated" where
  "generate_prompt_string st =
     (if final_key st = [] then (st, InvalidSelection)
      else
        let gp = AList.update (final_key st) (full_prompt st) (generated_prompts st) in
        (st\<lparr>generated_prompts := gp, generated_prompts_file := Some gp,
            generated_listbox := map fst gp\<rparr>,
         Generated (final_key st)))"

text \<open>
  For the statements about separators: the names selected in the window, in key order,
  and whether a list has the element \<open>c\<close> twice in a row.
\<close>

definition selected_names :: "app \<Rightarrow> string list" where
  "selected_names st =
     [prompt_vars st Character, prompt_vars st Pose, prompt_vars st Style] @ extras st @
     [prompt_vars st Quality]"

fun doubled :: "'a \<Rightarrow> 'a list \<Rightarrow> bool" where
  "doubled c (a # b # s) = ((a = c \<and> b = c) \<or> doubled c (b # s))"
| "doubled c s = False"

text \<open>The window of the specification's example, with nothing generated yet.\<close>

definition example_presets :: "category \<Rightarrow> fragment list" where
  "example_presets =
     (\<lambda>c. [])(Quality := [\<lparr>frag_name = ''q1'', frag_value = ''masterpiece''\<rparr>],
              Style := [\<lparr>frag_name = ''anime'', frag_value = ''anime style''\<rparr>])"

definition example_app :: "(category \<Rightarrow> string) \<Rightarrow> string list \<Rightarrow> nat list \<Rightarrow> app" where
  "example_app vars rows sel =
     \<lparr>generated_prompts = [], generated_prompts_file = None, generated_listbox = [],
      prompt_presets = example_presets, prompt_vars = vars,
      extra_listbox = rows, extra_curselection = sel\<rparr>"

section \<open>Auxiliary facts\<close>

lemma raise_or_simps [simp]:
  "raise_or (Inl e) f = Inl e" "raise_or (Inr x) f = f x"
  by (simp_all add: raise_or_def)

lemma randint_range:
  assumes "a \<le> b"
  shows "a \<le> randint a b e \<and> randint a b e \<le> b"
proof -
  from assms have m: "0 < b - a + 1" by simp
  have "0 \<le> int e mod (b - a + 1)" using m by (rule pos_mod_sign)
  moreover have "int e mod (b - a + 1) < b - a + 1" using m by (rule pos_mod_bound)
  ultimately show ?thesis unfolding randint_def by arith
qed

lemma randint_onto: "a \<le> n \<Longrightarrow> n \<le> b \<Longrightarrow> randint a b (nat (n - a)) = n"
  unfolding randint_def by simp

lemma build_workflow_str_Inr:
  assumes "s ''lora'' = Some (PStr l)" and "fs (template_path (PStr l)) = Some t"
    and "s ''checkpoint'' = Some (PStr c)" and "s ''latent_width'' = Some w"
    and "s ''latent_height'' = Some h" and "s ''batch_size'' = Some b"
    and "s ''seed'' = Some sd" and "s ''steps'' = Some n" and "s ''cfg'' = Some g"
  shows "build_workflow_str fs s p e =
     Inr (py_replace ''%CFG%'' (py_str g) (py_replace ''%STEPS%'' (py_str n)
         (py_replace ''%SEED%'' (seed_text sd e) (py_replace ''%BATCH_SIZE%'' (py_str b)
         (py_replace ''%HEIGHT%'' (py_str h) (py_replace ''%WIDTH%'' (py_str w)
         (py_replace ''%PROMPT%'' (json_escape p) (py_replace ''%LORA%'' l
         (py_replace ''%CHECKPOINT%'' c t)))))))))"
  using assms by (simp add: build_workflow_str_def workflow_before_seed_def getattr_def read_file_def replace_with_def)

lemma build_workflow_str_default:
  "build_workflow_str [''workflows/base.json'' \<mapsto> t] (default_settings(''seed'' \<mapsto> sd)) p e =
     Inr (py_replace ''%CFG%'' ''3.0'' (py_replace ''%STEPS%'' (str_int 20)
         (py_replace ''%SEED%'' (seed_text sd e) (py_replace ''%BATCH_SIZE%'' (str_int 1)
         (py_replace ''%HEIGHT%'' (str_int 832) (py_replace ''%WIDTH%'' (str_int 1216)
         (py_replace ''%PROMPT%'' (json_escape p) (py_replace ''%LORA%'' []
         (py_replace ''%CHECKPOINT%'' ''waiNSFWIllustrious_v120.safetensors'' t)))))))))"
  by (subst build_workflow_str_Inr [where l = "[]" and c = "''waiNSFWIllustrious_v120.safetensors''"
        and w = "PInt 1216" and h = "PInt 832" and b = "PInt 1" and sd = sd and n = "PInt 20"
        and g = "PStr ''3.0''" and t = t])
     (simp_all add: default_settings_def template_path_def py_str_def)

lemma default_seed: "default_settings(''seed'' \<mapsto> PStr ''RANDOM'') = default_settings"
  by (rule ext) (simp add: default_settings_def)

lemma str_int_values:
  "str_int 42 = ''42''" "str_int 20 = ''20''" "str_int 1 = ''1''" "str_int 832 = ''832''"
  "str_int 1216 = ''1216''" "str_int 2147483647 = ''2147483647''" "str_int 500 = ''500''"
  "str_int 7 = ''7''"
  by (simp_all add: str_int_def str_nat.simps digit_char_def)

lemma restrict_read: "read_file (fs |` {p}) p = read_file fs p"
  by (simp add: read_file_def)

lemma submission_line_distinct:
  "submission_line Sent \<noteq> submission_line (Failed code body)"
  "submission_line (Failed code body) \<noteq> submission_line Sent"
  by (simp_all add: submission_line_def)

lemma digit_char_inj: "a < 10 \<Longrightarrow> b < 10 \<Longrightarrow> digit_char a = digit_char b \<Longrightarrow> a = b"
proof -
  assume a: "a < 10" and b: "b < 10" and e: "digit_char a = digit_char b"
  have d: "distinct ''0123456789''" by simp
  have "''0123456789abcdef'' ! a = ''0123456789'' ! a" "''0123456789abcdef'' ! b = ''0123456789'' ! b"
    using a b by (simp_all add: nth_Cons' )
  with e have "''0123456789'' ! a = ''0123456789'' ! b" by (simp add: digit_char_def)
  with d a b show "a = b" by (simp add: nth_eq_iff_index_eq)
qed

lemma digit_char_not_minus: "d < 10 \<Longrightarrow> digit_char d \<noteq> CHR ''-''"
proof -
  assume "d < 10"
  then have "digit_char d \<in> set ''0123456789''"
    by (auto simp add: digit_char_def nth_Cons' )
  then show ?thesis by auto
qed

lemma str_nat_nonempty: "str_nat n \<noteq> []"
  by (subst str_nat.simps) simp

lemma str_nat_last: "last (str_nat n) = digit_char (n mod 10)"
  by (subst str_nat.simps) simp

lemma str_nat_butlast: "butlast (str_nat n) = (if n < 10 then [] else str_nat (n div 10))"
  by (subst str_nat.simps) simp

lemma str_nat_inj: "str_nat m = str_nat n \<Longrightarrow> m = n"
proof (induction m arbitrary: n rule: less_induct)
  case (less m)
  from less.prems have l: "digit_char (m mod 10) = digit_char (n mod 10)"
    by (metis str_nat_last)
  then have r: "m mod 10 = n mod 10" by (intro digit_char_inj) simp_all
  from less.prems have b: "butlast (str_nat m) = butlast (str_nat n)" by simp
  show ?case
  proof (cases "m < 10")
    case True
    have "n < 10"
    proof (rule ccontr)
      assume "\<not> n < 10"
      with b True have "str_nat (n div 10) = []" by (simp add: str_nat_butlast)
      then show False by (simp add: str_nat_nonempty)
    qed
    with True r show ?thesis by simp
  next
    case False
    have n: "\<not> n < 10"
    proof
      assume "n < 10"
      with b False have "str_nat (m div 10) = []" by (simp add: str_nat_butlast)
      then show False by (simp add: str_nat_nonempty)
    qed
    with b False have e: "str_nat (m div 10) = str_nat (n div 10)"
      by (simp add: str_nat_butlast)
    from False have "m div 10 < m" by simp
    from less.IH [OF this e] have "m div 10 = n div 10" .
    with r show ?thesis by (metis div_mult_mod_eq)
  qed
qed

lemma str_int_inj: "0 \<le> a \<Longrightarrow> 0 \<le> b \<Longrightarrow> str_int a = str_int b \<Longrightarrow> a = b"
  by (simp add: str_int_def) (metis str_nat_inj nat_eq_iff2 int_nat_eq)


lemma randint_seed: "randint 0 (2 ^ 31 - 1) e = int e mod 2 ^ 31"
  by (simp add: randint_def)

lemma workflow_before_seed_default:
  "workflow_before_seed [''workflows/base.json'' \<mapsto> t] (default_settings(''seed'' \<mapsto> sd)) p =
     Inr (py_replace ''%BATCH_SIZE%'' (str_int 1)
         (py_replace ''%HEIGHT%'' (str_int 832) (py_replace ''%WIDTH%'' (str_int 1216)
         (py_replace ''%PROMPT%'' (json_escape p) (py_replace ''%LORA%'' []
         (py_replace ''%CHECKPOINT%'' ''waiNSFWIllustrious_v120.safetensors'' t))))))"
  by (simp add: workflow_before_seed_def getattr_def read_file_def replace_with_def
      default_settings_def template_path_def py_str_def)

lemma before_seed_example:
  "workflow_before_seed [''workflows/base.json'' \<mapsto> ''%SEED%''] default_settings p = Inr ''%SEED%''"
  using workflow_before_seed_default [of "''%SEED%''" "PStr ''RANDOM''" p]
  unfolding default_seed by (simp add: py_replace.simps)

lemma build_example:
  "build_workflow_str [''workflows/base.json'' \<mapsto> ''%SEED%''] default_settings p 7 = Inr ''7''"
  "build_workflow_str [''workflows/base.json'' \<mapsto> ''%SEED%''] default_settings p 8 = Inr ''8''"
proof -
  have a: "getattr default_settings ''seed'' = Inr (PStr ''RANDOM'')"
    "getattr default_settings ''steps'' = Inr (PInt 20)"
    "getattr default_settings ''cfg'' = Inr (PStr ''3.0'')"
    by (simp_all add: getattr_def default_settings_def)
  have t: "seed_text (PStr ''RANDOM'') 7 = ''7''" "seed_text (PStr ''RANDOM'') 8 = ''8''"
    by (simp_all add: seed_text_def randint_def str_int_def str_nat.simps digit_char_def)
  show "build_workflow_str [''workflows/base.json'' \<mapsto> ''%SEED%''] default_settings p 7 = Inr ''7''"
    unfolding build_workflow_str_def before_seed_example a
    by (simp add: t py_str_def str_int_values py_replace.simps)
  show "build_workflow_str [''workflows/base.json'' \<mapsto> ''%SEED%''] default_settings p 8 = Inr ''8''"
    unfolding build_workflow_str_def before_seed_example a
    by (simp add: t py_str_def str_int_values py_replace.simps)
qed

lemma py_replace_absent: "old \<noteq> [] \<Longrightarrow> hd old \<notin> set s \<Longrightarrow> py_replace old new s = s"
proof (induction s)
  case Nil
  then show ?case by (simp add: py_replace.simps)
next
  case (Cons a s)
  then have n: "take (length old) (a # s) \<noteq> old"
    by (cases old) auto
  from Cons have "py_replace old new s = s" by simp
  with Cons.prems n show ?case
    by (subst py_replace.simps) simp
qed

lemma send_workflow_built:
  "build_workflow_str fs s prompt entropy = Inr w \<Longrightarrow>
   send_workflow fs loads post entropy url s prompt =
     raise_or (loads w) (\<lambda>doc. raise_or (post (url @ ''prompt'') doc) (\<lambda>r.
       Inr (submission_line (if status_code r = 200 then Sent
                             else Failed (status_code r) (body_text r)))))"
  by (simp add: send_workflow_def raise_or_def split: sum.splits)

section \<open>Template selection and seed resolution\<close>

text \<open>
  Claim C8. The template is chosen by the LoRA attribute alone: the empty string (and
  \<open>None\<close>) selects \<open>workflows/base.json\<close>, every other value selects
  \<open>workflows/base-lora.json\<close>. The chosen file is the one that is read and used: with
  the attributes present, the text built is the chosen template with the placeholders
  replaced in the source's order (the template itself when it has no placeholder), and
  the outcome of the call is that of parsing and posting this text. No other file is
  read: the call gives the same result on a file system cut down to the chosen path,
  and it raises \<open>FileNotFoundError\<close> when that file is missing, whatever else is there.
\<close>

theorem template_selection:
  assumes "s ''lora'' = Some v"
  shows "(v = PStr [] \<or> v = PNone \<longrightarrow> template_path v = ''workflows/base.json'') \<and>
         (v \<noteq> PStr [] \<and> v \<noteq> PNone \<longrightarrow> template_path v = ''workflows/base-lora.json'') \<and>
         send_workflow fs loads post entropy url s prompt =
           send_workflow (fs |` {template_path v}) loads post entropy url s prompt \<and>
         (fs (template_path v) = None \<longrightarrow>
            send_workflow fs loads post entropy url s prompt = Inl FileNotFoundError) \<and>
         (\<forall>t l c w h b sd n g.
            fs (template_path v) = Some t \<and> v = PStr l \<and> s ''checkpoint'' = Some (PStr c) \<and>
            s ''latent_width'' = Some w \<and> s ''latent_height'' = Some h \<and>
            s ''batch_size'' = Some b \<and> s ''seed'' = Some sd \<and> s ''steps'' = Some n \<and>
            s ''cfg'' = Some g \<longrightarrow>
            build_workflow_str fs s prompt entropy =
              Inr (py_replace ''%CFG%'' (py_str g) (py_replace ''%STEPS%'' (py_str n)
                  (py_replace ''%SEED%'' (seed_text sd entropy) (py_replace ''%BATCH_SIZE%'' (py_str b)
                  (py_replace ''%HEIGHT%'' (py_str h) (py_replace ''%WIDTH%'' (py_str w)
                  (py_replace ''%PROMPT%'' (json_escape prompt) (py_replace ''%LORA%'' l
                  (py_replace ''%CHECKPOINT%'' c t))))))))) \<and>
            (CHR ''%'' \<notin> set t \<longrightarrow> build_workflow_str fs s prompt entropy = Inr t)) \<and>
         (\<forall>w. build_workflow_str fs s prompt entropy = Inr w \<longrightarrow>
            send_workflow fs loads post entropy url s prompt =
              raise_or (loads w) (\<lambda>doc. raise_or (post (url @ ''prompt'') doc) (\<lambda>r.
                Inr (submission_line (if status_code r = 200 then Sent
                                      else Failed (status_code r) (body_text r))))))"
proof -
  have a: "build_workflow_str fs s prompt entropy =
           build_workflow_str (fs |` {template_path v}) s prompt entropy"
    using assms by (simp add: build_workflow_str_def workflow_before_seed_def getattr_def restrict_read)
  have b: "fs (template_path v) = None \<longrightarrow> build_workflow_str fs s prompt entropy = Inl FileNotFoundError"
    using assms by (simp add: build_workflow_str_def workflow_before_seed_def getattr_def read_file_def)
  have p: "(v = PStr [] \<or> v = PNone \<longrightarrow> template_path v = ''workflows/base.json'') \<and>
         (v \<noteq> PStr [] \<and> v \<noteq> PNone \<longrightarrow> template_path v = ''workflows/base-lora.json'')"
    by (simp add: template_path_def)
  have r: "send_workflow fs loads post entropy url s prompt =
           send_workflow (fs |` {template_path v}) loads post entropy url s prompt"
    using a by (simp add: send_workflow_def)
  have m: "fs (template_path v) = None \<longrightarrow>
            send_workflow fs loads post entropy url s prompt = Inl FileNotFoundError"
    using b by (simp add: send_workflow_def)
  have c: "\<forall>t l c w h b sd n g.
            fs (template_path v) = Some t \<and> v = PStr l \<and> s ''checkpoint'' = Some (PStr c) \<and>
            s ''latent_width'' = Some w \<and> s ''latent_height'' = Some h \<and>
            s ''batch_size'' = Some b \<and> s ''seed'' = Some sd \<and> s ''steps'' = Some n \<and>
            s ''cfg'' = Some g \<longrightarrow>
            build_workflow_str fs s prompt entropy =
              Inr (py_replace ''%CFG%'' (py_str g) (py_replace ''%STEPS%'' (py_str n)
                  (py_replace ''%SEED%'' (seed_text sd entropy) (py_replace ''%BATCH_SIZE%'' (py_str b)
                  (py_replace ''%HEIGHT%'' (py_str h) (py_replace ''%WIDTH%'' (py_str w)
                  (py_replace ''%PROMPT%'' (json_escape prompt) (py_replace ''%LORA%'' l
                  (py_replace ''%CHECKPOINT%'' c t))))))))) \<and>
            (CHR ''%'' \<notin> set t \<longrightarrow> build_workflow_str fs s prompt entropy = Inr t)"
  proof (intro allI impI)
    fix t l c w h b sd n g
    assume h: "fs (template_path v) = Some t \<and> v = PStr l \<and> s ''checkpoint'' = Some (PStr c) \<and>
            s ''latent_width'' = Some w \<and> s ''latent_height'' = Some h \<and>
            s ''batch_size'' = Some b \<and> s ''seed'' = Some sd \<and> s ''steps'' = Some n \<and>
            s ''cfg'' = Some g"
    with assms have e: "build_workflow_str fs s prompt entropy =
              Inr (py_replace ''%CFG%'' (py_str g) (py_replace ''%STEPS%'' (py_str n)
                  (py_replace ''%SEED%'' (seed_text sd entropy) (py_replace ''%BATCH_SIZE%'' (py_str b)
                  (py_replace ''%HEIGHT%'' (py_str h) (py_replace ''%WIDTH%'' (py_str w)
                  (py_replace ''%PROMPT%'' (json_escape prompt) (py_replace ''%LORA%'' l
                  (py_replace ''%CHECKPOINT%'' c t)))))))))"
      by (intro build_workflow_str_Inr) auto
    have "CHR ''%'' \<notin> set t \<longrightarrow> build_workflow_str fs s prompt entropy = Inr t"
      by (simp add: e py_replace_absent)
    with e show "build_workflow_str fs s prompt entropy =
              Inr (py_replace ''%CFG%'' (py_str g) (py_replace ''%STEPS%'' (py_str n)
                  (py_replace ''%SEED%'' (seed_text sd entropy) (py_replace ''%BATCH_SIZE%'' (py_str b)
                  (py_replace ''%HEIGHT%'' (py_str h) (py_replace ''%WIDTH%'' (py_str w)
                  (py_replace ''%PROMPT%'' (json_escape prompt) (py_replace ''%LORA%'' l
                  (py_replace ''%CHECKPOINT%'' c t))))))))) \<and>
            (CHR ''%'' \<notin> set t \<longrightarrow> build_workflow_str fs s prompt entropy = Inr t)"
      by blast
  qed
  have w: "\<forall>w. build_workflow_str fs s prompt entropy = Inr w \<longrightarrow>
            send_workflow fs loads post entropy url s prompt =
              raise_or (loads w) (\<lambda>doc. raise_or (post (url @ ''prompt'') doc) (\<lambda>r.
                Inr (submission_line (if status_code r = 200 then Sent
                                      else Failed (status_code r) (body_text r)))))"
    using send_workflow_built by blast
  from p r m c w show ?thesis by blast
qed

theorem template_selection_witness:
  "default_settings ''lora'' = Some (PStr []) \<and> template_path (PStr []) = ''workflows/base.json'' \<and>
   (default_settings(''lora'' \<mapsto> PStr ''style.safetensors'')) ''lora'' = Some (PStr ''style.safetensors'') \<and>
   template_path (PStr ''style.safetensors'') = ''workflows/base-lora.json'' \<and>
   send_workflow [''workflows/base.json'' \<mapsto> ''plain'', ''workflows/base-lora.json'' \<mapsto> ''with lora'']
     (\<lambda>w. Inr w) (\<lambda>u d. Inr (Response 500 d (Inr ()))) 0 ''http://127.0.0.1:8000/''
     default_settings ''1girl'' = Inr ''Error: 500 - plain'' \<and>
   send_workflow [''workflows/base.json'' \<mapsto> ''plain'', ''workflows/base-lora.json'' \<mapsto> ''with lora'']
     (\<lambda>w. Inr w) (\<lambda>u d. Inr (Response 500 d (Inr ()))) 0 ''http://127.0.0.1:8000/''
     (default_settings(''lora'' \<mapsto> PStr ''style.safetensors'')) ''1girl'' = Inr ''Error: 500 - with lora'' \<and>
   send_workflow Map.empty (\<lambda>w. Inr w) (\<lambda>u d. (Inl RequestException :: py_error + unit response)) 0
     ''http://127.0.0.1:8000/'' default_settings ''1girl'' = Inl FileNotFoundError"
proof -
  let ?fs = "[''workflows/base.json'' \<mapsto> ''plain'', ''workflows/base-lora.json'' \<mapsto> ''with lora'']"
  let ?lora = "default_settings(''lora'' \<mapsto> PStr ''style.safetensors'')"
  let ?post = "\<lambda>u d. Inr (Response 500 d (Inr ())) :: py_error + unit response"
  have h1: "default_settings ''lora'' = Some (PStr [])"
    by (simp add: default_settings_def)
  have h2: "?lora ''lora'' = Some (PStr ''style.safetensors'')"
    by simp
  note t0 = template_selection [where s = default_settings and v = "PStr []" and fs = Map.empty
      and loads = "\<lambda>w. Inr w" and post = "\<lambda>u d. (Inl RequestException :: py_error + unit response)"
      and entropy = 0 and url = "''http://127.0.0.1:8000/''" and prompt = "''1girl''", OF h1]
  note t1 = template_selection [where s = default_settings and v = "PStr []" and fs = ?fs
      and loads = "\<lambda>w. Inr w" and post = ?post
      and entropy = 0 and url = "''http://127.0.0.1:8000/''" and prompt = "''1girl''", OF h1]
  note t2 = template_selection [where s = ?lora and v = "PStr ''style.safetensors''" and fs = ?fs
      and loads = "\<lambda>w. Inr w" and post = ?post
      and entropy = 0 and url = "''http://127.0.0.1:8000/''" and prompt = "''1girl''", OF h2]
  have p: "template_path (PStr []) = ''workflows/base.json''"
    "template_path (PStr ''style.safetensors'') = ''workflows/base-lora.json''"
    using t1 t2 by simp_all
  have b1: "build_workflow_str ?fs default_settings ''1girl'' 0 = Inr ''plain''"
  proof -
    have "?fs (template_path (PStr [])) = Some ''plain'' \<and> PStr [] = PStr [] \<and>
        default_settings ''checkpoint'' = Some (PStr ''waiNSFWIllustrious_v120.safetensors'') \<and>
        default_settings ''latent_width'' = Some (PInt 1216) \<and>
        default_settings ''latent_height'' = Some (PInt 832) \<and>
        default_settings ''batch_size'' = Some (PInt 1) \<and>
        default_settings ''seed'' = Some (PStr ''RANDOM'') \<and>
        default_settings ''steps'' = Some (PInt 20) \<and> default_settings ''cfg'' = Some (PStr ''3.0'') \<and>
        CHR ''%'' \<notin> set ''plain''"
      by (simp add: p default_settings_def)
    with t1 show ?thesis by blast
  qed
  have b2: "build_workflow_str ?fs ?lora ''1girl'' 0 = Inr ''with lora''"
  proof -
    have "?fs (template_path (PStr ''style.safetensors'')) = Some ''with lora'' \<and>
        PStr ''style.safetensors'' = PStr ''style.safetensors'' \<and>
        ?lora ''checkpoint'' = Some (PStr ''waiNSFWIllustrious_v120.safetensors'') \<and>
        ?lora ''latent_width'' = Some (PInt 1216) \<and>
        ?lora ''latent_height'' = Some (PInt 832) \<and>
        ?lora ''batch_size'' = Some (PInt 1) \<and>
        ?lora ''seed'' = Some (PStr ''RANDOM'') \<and>
        ?lora ''steps'' = Some (PInt 20) \<and> ?lora ''cfg'' = Some (PStr ''3.0'') \<and>
        CHR ''%'' \<notin> set ''with lora''"
      by (simp add: p default_settings_def)
    with t2 show ?thesis by blast
  qed
  have s1: "send_workflow ?fs (\<lambda>w. Inr w) ?post 0 ''http://127.0.0.1:8000/'' default_settings ''1girl''
      = Inr ''Error: 500 - plain''"
    using t1 [THEN conjunct2, THEN conjunct2, THEN conjunct2, THEN conjunct2, THEN conjunct2,
        rule_format, OF b1]
    by (simp add: submission_line_def str_int_values)
  have s2: "send_workflow ?fs (\<lambda>w. Inr w) ?post 0 ''http://127.0.0.1:8000/'' ?lora ''1girl''
      = Inr ''Error: 500 - with lora''"
    using t2 [THEN conjunct2, THEN conjunct2, THEN conjunct2, THEN conjunct2, THEN conjunct2,
        rule_format, OF b2]
    by (simp add: submission_line_def str_int_values)
  have s0: "send_workflow Map.empty (\<lambda>w. Inr w) (\<lambda>u d. (Inl RequestException :: py_error + unit response)) 0
     ''http://127.0.0.1:8000/'' default_settings ''1girl'' = Inl FileNotFoundError"
    using t0 [THEN conjunct2, THEN conjunct2, THEN conjunct2, THEN conjunct1] by simp
  from h1 h2 p s1 s2 s0 show ?thesis by blast
qed

text \<open>
  Claim C1, amended. For the seeds \<open>"RANDOM"\<close>, \<open>-1\<close> and \<open>"-1"\<close> the text put in place of
  \<open>%SEED%\<close> is the decimal form of the integer that \<open>random.randint(0, 2**31 - 1)\<close> draws
  in this call. It lies in the closed range from 0 to \<open>2^31 - 1\<close>; an integer of the range
  is the seed exactly for the raw outputs of one residue class modulo \<open>2^31\<close>, so every
  integer of the range, the upper end included, is drawn, and all are drawn equally
  often. The draw is fresh: a call that gets as far as line 74 takes the generator's
  next output and moves the generator on, so that the call after it uses the output
  after that. For every other seed the text is \<open>str(seed)\<close> and the generator is left as
  it is; for the seed 42 the text is \<open>42\<close>. In each case this text is what replaces
  \<open>%SEED%\<close> in the document that lines 58 to 72 have built, and the document so
  completed is the one \<open>send_workflow\<close> parses and posts.
\<close>

theorem seed_resolution:
  "(seed = PStr ''RANDOM'' \<or> seed = PInt (- 1) \<or> seed = PStr ''-1'' \<longrightarrow>
      seed_text seed entropy = str_int (randint 0 (2 ^ 31 - 1) entropy) \<and>
      0 \<le> randint 0 (2 ^ 31 - 1) entropy \<and> randint 0 (2 ^ 31 - 1) entropy \<le> 2 ^ 31 - 1 \<and>
      (\<forall>n. 0 \<le> n \<and> n \<le> 2 ^ 31 - 1 \<longrightarrow>
         (seed_text seed entropy = str_int n \<longleftrightarrow> int entropy mod 2 ^ 31 = n)) \<and>
      (\<forall>w. workflow_before_seed fs s prompt = Inr w \<and> s ''seed'' = Some seed \<longrightarrow>
         build_with_generator fs s prompt g =
           (build_workflow_str fs s prompt (g 0), (\<lambda>i. g (Suc i))) \<and>
         fst (build_with_generator fs s prompt2 (snd (build_with_generator fs s prompt g))) =
           build_workflow_str fs s prompt2 (g 1))) \<and>
   (\<not> (seed = PStr ''RANDOM'' \<or> seed = PInt (- 1) \<or> seed = PStr ''-1'') \<longrightarrow>
      seed_text seed entropy = py_str seed \<and>
      (s ''seed'' = Some seed \<longrightarrow>
         build_with_generator fs s prompt g = (build_workflow_str fs s prompt (g 0), g))) \<and>
   seed_text (PInt 42) entropy = ''42'' \<and>
   (\<forall>w steps cfg.
      workflow_before_seed fs s prompt = Inr w \<and> s ''seed'' = Some seed \<and>
      s ''steps'' = Some steps \<and> s ''cfg'' = Some cfg \<longrightarrow>
      build_workflow_str fs s prompt entropy =
        Inr (py_replace ''%CFG%'' (py_str cfg) (py_replace ''%STEPS%'' (py_str steps)
              (py_replace ''%SEED%'' (seed_text seed entropy) w)))) \<and>
   (\<forall>w. build_workflow_str fs s prompt entropy = Inr w \<longrightarrow>
      send_workflow fs loads post entropy url s prompt =
        raise_or (loads w) (\<lambda>doc. raise_or (post (url @ ''prompt'') doc) (\<lambda>r.
          Inr (submission_line (if status_code r = 200 then Sent
                                else Failed (status_code r) (body_text r)))))) \<and>
   (\<forall>e. workflow_before_seed fs s prompt = Inl e \<longrightarrow>
      build_with_generator fs s prompt g = (Inl e, g))"
proof -
  let ?random = "seed = PStr ''RANDOM'' \<or> seed = PInt (- 1) \<or> seed = PStr ''-1''"
  have r: "0 \<le> randint 0 (2 ^ 31 - 1) entropy \<and> randint 0 (2 ^ 31 - 1) entropy \<le> 2 ^ 31 - 1"
    by (rule randint_range) simp
  have x: "?random \<longrightarrow> seed_text seed entropy = str_int (randint 0 (2 ^ 31 - 1) entropy)"
    by (simp add: seed_text_def)
  have u: "?random \<longrightarrow> (\<forall>n. 0 \<le> n \<and> n \<le> 2 ^ 31 - 1 \<longrightarrow>
         (seed_text seed entropy = str_int n \<longleftrightarrow> int entropy mod 2 ^ 31 = n))"
  proof (intro impI allI)
    fix n :: int
    assume s: ?random and n: "0 \<le> n \<and> n \<le> 2 ^ 31 - 1"
    from r n have "str_int (randint 0 (2 ^ 31 - 1) entropy) = str_int n \<longleftrightarrow>
        randint 0 (2 ^ 31 - 1) entropy = n"
      using str_int_inj by blast
    with x s show "seed_text seed entropy = str_int n \<longleftrightarrow> int entropy mod 2 ^ 31 = n"
      by (simp only: randint_seed)
  qed
  have g1: "?random \<longrightarrow> (\<forall>w. workflow_before_seed fs s prompt = Inr w \<and> s ''seed'' = Some seed \<longrightarrow>
         build_with_generator fs s prompt g =
           (build_workflow_str fs s prompt (g 0), (\<lambda>i. g (Suc i))))"
    by (simp add: build_with_generator_def generator_after_def getattr_def random_randint_def)
  have g2: "?random \<longrightarrow> (\<forall>w. workflow_before_seed fs s prompt = Inr w \<and> s ''seed'' = Some seed \<longrightarrow>
         fst (build_with_generator fs s prompt2 (snd (build_with_generator fs s prompt g))) =
           build_workflow_str fs s prompt2 (g 1))"
    by (simp add: build_with_generator_def generator_after_def getattr_def random_randint_def)
  have l: "\<not> ?random \<longrightarrow> seed_text seed entropy = py_str seed \<and>
      (s ''seed'' = Some seed \<longrightarrow>
         build_with_generator fs s prompt g = (build_workflow_str fs s prompt (g 0), g))"
    by (simp add: seed_text_def build_with_generator_def generator_after_def getattr_def
        split: sum.splits)
  have c: "seed_text (PInt 42) entropy = ''42''"
    by (simp add: seed_text_def py_str_def str_int_values)
  have t: "\<forall>w steps cfg.
      workflow_before_seed fs s prompt = Inr w \<and> s ''seed'' = Some seed \<and>
      s ''steps'' = Some steps \<and> s ''cfg'' = Some cfg \<longrightarrow>
      build_workflow_str fs s prompt entropy =
        Inr (py_replace ''%CFG%'' (py_str cfg) (py_replace ''%STEPS%'' (py_str steps)
              (py_replace ''%SEED%'' (seed_text seed entropy) w)))"
    by (simp add: build_workflow_str_def getattr_def)
  have w: "\<forall>w. build_workflow_str fs s prompt entropy = Inr w \<longrightarrow>
      send_workflow fs loads post entropy url s prompt =
        raise_or (loads w) (\<lambda>doc. raise_or (post (url @ ''prompt'') doc) (\<lambda>r.
          Inr (submission_line (if status_code r = 200 then Sent
                                else Failed (status_code r) (body_text r)))))"
    using send_workflow_built by blast
  have f: "\<forall>e. workflow_before_seed fs s prompt = Inl e \<longrightarrow>
      build_with_generator fs s prompt g = (Inl e, g)"
    by (simp add: build_with_generator_def generator_after_def build_workflow_str_def)
  from r x u g1 g2 l c t w f show ?thesis by blast
qed

theorem seed_resolution_witness:
  "workflow_before_seed [''workflows/base.json'' \<mapsto> ''%SEED%''] default_settings ''1girl'' = Inr ''%SEED%'' \<and>
   default_settings ''seed'' = Some (PStr ''RANDOM'') \<and>
   seed_text (PStr ''RANDOM'') 7 = str_int 7 \<and>
   build_with_generator [''workflows/base.json'' \<mapsto> ''%SEED%''] default_settings ''1girl'' (\<lambda>i. i + 7)
     = (Inr ''7'', (\<lambda>i. Suc i + 7)) \<and>
   fst (build_with_generator [''workflows/base.json'' \<mapsto> ''%SEED%''] default_settings ''2girls''
         (snd (build_with_generator [''workflows/base.json'' \<mapsto> ''%SEED%''] default_settings ''1girl''
                (\<lambda>i. i + 7)))) = Inr ''8'' \<and>
   seed_text (PInt 7) 0 = py_str (PInt 7)"
proof -
  let ?fs = "[''workflows/base.json'' \<mapsto> ''%SEED%'']"
  have h1: "workflow_before_seed ?fs default_settings ''1girl'' = Inr ''%SEED%''"
    by (rule before_seed_example)
  have h2: "default_settings ''seed'' = Some (PStr ''RANDOM'')"
    by (simp add: default_settings_def)
  note a = seed_resolution [where seed = "PStr ''RANDOM''" and entropy = 7 and fs = ?fs
      and s = default_settings and prompt = "''1girl''" and g = "\<lambda>i. i + 7" and ?prompt2.0 = "''2girls''"
      and loads = "\<lambda>w. Inr w" and post = "\<lambda>u d. (Inl RequestException :: py_error + unit response)"
      and url = "''http://127.0.0.1:8000/''"]
  note b = seed_resolution [where seed = "PInt 7" and entropy = 0 and fs = ?fs
      and s = "default_settings(''seed'' \<mapsto> PInt 7)" and prompt = "''1girl''" and g = "\<lambda>i. i + 7"
      and ?prompt2.0 = "''2girls''"
      and loads = "\<lambda>w. Inr w" and post = "\<lambda>u d. (Inl RequestException :: py_error + unit response)"
      and url = "''http://127.0.0.1:8000/''"]
  have c: "seed_text (PStr ''RANDOM'') 7 = str_int 7"
    using a by (simp add: randint_def)
  have d: "build_with_generator ?fs default_settings ''1girl'' (\<lambda>i. i + 7)
     = (Inr ''7'', (\<lambda>i. Suc i + 7))"
    using a h1 h2 by (simp add: build_example)
  have "fst (build_with_generator ?fs default_settings ''2girls''
         (snd (build_with_generator ?fs default_settings ''1girl'' (\<lambda>i. i + 7)))) =
        build_workflow_str ?fs default_settings ''2girls'' (1 + 7)"
    using a h1 h2 by blast
  then have e: "fst (build_with_generator ?fs default_settings ''2girls''
         (snd (build_with_generator ?fs default_settings ''1girl'' (\<lambda>i. i + 7)))) = Inr ''8''"
    by (simp add: build_example)
  have f: "seed_text (PInt 7) 0 = py_str (PInt 7)"
    using b by simp
  from h1 h2 c d e f show ?thesis by blast
qed

text \<open>
  Claim C1 as stated puts the drawn seed in the half-open range \<open>[0, 2^31 - 1)\<close>. With the
  default settings (seed \<open>"RANDOM"\<close>) and the generator in the state that draws the upper
  end, the text substituted for \<open>%SEED%\<close> is \<open>2147483647\<close>, which is not below \<open>2^31 - 1\<close>.
\<close>

theorem seed_upper_bound_counterexample:
  "build_workflow_str [''workflows/base.json'' \<mapsto> ''%SEED%''] default_settings ''1girl'' 2147483647
     = Inr ''2147483647'' \<and>
   str_int 2147483647 = ''2147483647'' \<and> \<not> ((2147483647 :: int) < 2 ^ 31 - 1)"
proof -
  have v: "seed_text (PStr ''RANDOM'') 2147483647 = ''2147483647''"
    by (simp add: seed_text_def randint_def str_int_values)
  have "build_workflow_str [''workflows/base.json'' \<mapsto> ''%SEED%'']
          (default_settings(''seed'' \<mapsto> PStr ''RANDOM'')) ''1girl'' 2147483647 = Inr ''2147483647''"
    by (simp add: build_workflow_str_default v str_int_values py_replace.simps)
  then show ?thesis
    unfolding default_seed by (simp add: str_int_values)
qed

section \<open>Substitution and submission\<close>

text \<open>
  Claim C7, evaluated on the code. With the LoRA attribute \<open>None\<close> the guard of line 58
  selects \<open>workflows/base.json\<close>, and the call then never returns normally: with the
  template present and a string checkpoint it raises \<open>TypeError\<close> at
  \<open>workflow_str.replace("%LORA%", None)\<close>. With the attribute absent it raises
  \<open>AttributeError\<close> at the guard itself.
\<close>

theorem lora_none_raises:
  "(s ''lora'' = None \<longrightarrow>
      send_workflow fs loads post entropy url s prompt = Inl AttributeError) \<and>
   (s ''lora'' = Some PNone \<longrightarrow>
      (\<exists>e. send_workflow fs loads post entropy url s prompt = Inl e)) \<and>
   (s ''lora'' = Some PNone \<and> fs ''workflows/base.json'' = Some t \<and> s ''checkpoint'' = Some (PStr c) \<longrightarrow>
      send_workflow fs loads post entropy url s prompt = Inl TypeError)"
proof -
  have a: "s ''lora'' = None \<longrightarrow> build_workflow_str fs s prompt entropy = Inl AttributeError"
    by (simp add: build_workflow_str_def workflow_before_seed_def getattr_def)
  have b: "s ''lora'' = Some PNone \<longrightarrow> (\<exists>e. build_workflow_str fs s prompt entropy = Inl e)"
    by (auto simp add: build_workflow_str_def workflow_before_seed_def getattr_def read_file_def replace_with_def raise_or_def
        split: option.splits sum.splits pyval.splits)
  have c: "s ''lora'' = Some PNone \<and> fs ''workflows/base.json'' = Some t \<and> s ''checkpoint'' = Some (PStr c) \<longrightarrow>
      build_workflow_str fs s prompt entropy = Inl TypeError"
    by (simp add: build_workflow_str_def workflow_before_seed_def getattr_def read_file_def replace_with_def template_path_def)
  show ?thesis
    using a b c by (auto simp add: send_workflow_def)
qed

theorem lora_none_raises_witness:
  "(default_settings(''lora'' \<mapsto> PNone)) ''lora'' = Some PNone \<and>
   [''workflows/base.json'' \<mapsto> ''%LORA%''] ''workflows/base.json'' = Some ''%LORA%'' \<and>
   send_workflow [''workflows/base.json'' \<mapsto> ''%LORA%''] (\<lambda>w. Inr w)
     (\<lambda>u d. Inr (Response 200 [] (Inr ()))) 0 ''http://127.0.0.1:8000/''
     (default_settings(''lora'' \<mapsto> PNone)) ''1girl'' = Inl TypeError \<and>
   send_workflow [''workflows/base.json'' \<mapsto> ''%LORA%''] (\<lambda>w. Inr w)
     (\<lambda>u d. Inr (Response 200 [] (Inr ()))) 0 ''http://127.0.0.1:8000/''
     (default_settings |` (- {''lora''})) ''1girl'' = Inl AttributeError"
proof -
  note t1 = lora_none_raises [where s = "default_settings(''lora'' \<mapsto> PNone)"
      and fs = "[''workflows/base.json'' \<mapsto> ''%LORA%'']" and t = "''%LORA%''"
      and c = "''waiNSFWIllustrious_v120.safetensors''"
      and loads = "\<lambda>w. Inr w" and post = "\<lambda>u d. Inr (Response 200 [] (Inr ()))"
      and entropy = 0 and url = "''http://127.0.0.1:8000/''" and prompt = "''1girl''"]
  note t2 = lora_none_raises [where s = "default_settings |` (- {''lora''})"
      and fs = "[''workflows/base.json'' \<mapsto> ''%LORA%'']"
      and loads = "\<lambda>w. Inr w" and post = "\<lambda>u d. Inr (Response 200 [] (Inr ()))"
      and entropy = 0 and url = "''http://127.0.0.1:8000/''" and prompt = "''1girl''"]
  show ?thesis
    using t1 t2 by (simp add: default_settings_def)
qed

text \<open>
  Claim C4, evaluated on the code. Once the document is built and parsed, a response
  with status 200 prints the success line and no other status does; any other status
  prints the error line with the status and the body. An exception of the transport is
  not caught: it leaves \<open>send_workflow\<close> as it was raised. The function has no access to the
  generated-prompt mapping.
\<close>

theorem submission_outcome:
  assumes "build_workflow_str fs s prompt entropy = Inr w" and "loads w = Inr doc"
  shows "(\<forall>r. post (url @ ''prompt'') doc = Inr r \<longrightarrow>
            (send_workflow fs loads post entropy url s prompt = Inr (submission_line Sent)
               \<longleftrightarrow> status_code r = 200) \<and>
            (status_code r \<noteq> 200 \<longrightarrow>
               send_workflow fs loads post entropy url s prompt =
                 Inr (submission_line (Failed (status_code r) (body_text r))))) \<and>
         (\<forall>e. post (url @ ''prompt'') doc = Inl e \<longrightarrow>
            send_workflow fs loads post entropy url s prompt = Inl e)"
  using assms by (simp add: send_workflow_def submission_line_distinct)

theorem submission_outcome_witness:
  "send_workflow [''workflows/base.json'' \<mapsto> ''{}''] (\<lambda>w. Inr w)
     (\<lambda>u d. (Inl RequestException :: py_error + unit response)) 0 ''http://127.0.0.1:8000/''
     default_settings ''1girl'' = Inl RequestException \<and>
   send_workflow [''workflows/base.json'' \<mapsto> ''{}''] (\<lambda>w. Inr w)
     (\<lambda>u d. Inr (Response 500 ''Internal Server Error'' (Inr ()))) 0 ''http://127.0.0.1:8000/''
     default_settings ''1girl'' = Inr ''Error: 500 - Internal Server Error'' \<and>
   send_workflow [''workflows/base.json'' \<mapsto> ''{}''] (\<lambda>w. Inr w)
     (\<lambda>u d. Inr (Response 200 ''{}'' (Inr ()))) 0 ''http://127.0.0.1:8000/''
     default_settings ''1girl'' = Inr ''Workflow sent successfully!''"
proof -
  have b: "build_workflow_str [''workflows/base.json'' \<mapsto> ''{}''] default_settings ''1girl'' 0 = Inr ''{}''"
    using build_workflow_str_default [of "''{}''" "PStr ''RANDOM''" "''1girl''" 0]
    unfolding default_seed by (simp add: py_replace.simps)
  note t = submission_outcome [where fs = "[''workflows/base.json'' \<mapsto> ''{}'']" and s = default_settings
      and prompt = "''1girl''" and entropy = 0 and w = "''{}''" and loads = "\<lambda>w. Inr w" and doc = "''{}''"
      and url = "''http://127.0.0.1:8000/''", OF b]
  show ?thesis
    using t [where post = "\<lambda>u d. (Inl RequestException :: py_error + unit response)"]
      t [where post = "\<lambda>u d. Inr (Response 500 ''Internal Server Error'' (Inr ()))"]
      t [where post = "\<lambda>u d. Inr (Response 200 ''{}'' (Inr ()))"]
    by (simp add: submission_line_def str_int_values)
qed

text \<open>
  Claim C10. The substitutions run one after the other over the whole text, so the
  placeholders of a prompt that is already inserted are rewritten by the later steps:
  with the seed 42 and the default width and guidance scale, the prompt
  \<open>cat %SEED% %WIDTH% %CFG%\<close> (which JSON escaping leaves as it is) reaches the parser as
  \<open>cat 42 1216 3.0\<close>.
\<close>

theorem prompt_placeholders_rewritten:
  \<open>json_escape ''cat %SEED% %WIDTH% %CFG%'' = ''cat %SEED% %WIDTH% %CFG%'' \<and>
   build_workflow_str [''workflows/base.json'' \<mapsto> ''{"text": "%PROMPT%", "seed": %SEED%}'']
     (default_settings(''seed'' \<mapsto> PInt 42)) ''cat %SEED% %WIDTH% %CFG%'' entropy
     = Inr ''{"text": "cat 42 1216 3.0", "seed": 42}'' \<and>
   ''{"text": "cat 42 1216 3.0", "seed": 42}'' \<noteq> ''{"text": "cat %SEED% %WIDTH% %CFG%", "seed": 42}''\<close>
proof -
  have e: \<open>json_escape ''cat %SEED% %WIDTH% %CFG%'' = ''cat %SEED% %WIDTH% %CFG%''\<close>
    by (simp add: json_escape_def json_escape_char_def)
  have s: "seed_text (PInt 42) entropy = ''42''"
    by (simp add: seed_text_def py_str_def str_int_values)
  have \<open>build_workflow_str [''workflows/base.json'' \<mapsto> ''{"text": "%PROMPT%", "seed": %SEED%}'']
     (default_settings(''seed'' \<mapsto> PInt 42)) ''cat %SEED% %WIDTH% %CFG%'' entropy
     = Inr ''{"text": "cat 42 1216 3.0", "seed": 42}''\<close>
    by (simp add: build_workflow_str_default e s str_int_values py_replace.simps)
  then show ?thesis
    using e by simp
qed

section \<open>The connectivity probe\<close>




section \<open>Prompt composition\<close>

lemma str_join_Cons: "ps \<noteq> [] \<Longrightarrow> str_join sep (p # ps) = p @ sep @ str_join sep ps"
  by (cases ps) simp_all

lemma count_list_app: "count_list (xs @ ys) c = count_list xs c + count_list ys c"
  by (induction xs) simp_all

lemma count_str_join:
  "count_list (str_join sep ps) c =
     sum_list (map (\<lambda>p. count_list p c) ps) + (length ps - 1) * count_list sep c"
  by (induction sep ps rule: str_join.induct) (simp_all add: count_list_app)

lemma sum_count_filter:
  "sum_list (map (\<lambda>p. count_list p c) (filter (\<lambda>p. p \<noteq> []) ps)) = sum_list (map (\<lambda>p. count_list p c) ps)"
  by (induction ps) simp_all

lemma set_str_join: "set (str_join sep ps) \<subseteq> \<Union> (set ` set ps) \<union> set sep"
  by (induction sep ps rule: str_join.induct) auto

lemma str_join_nonempty: "ps \<noteq> [] \<Longrightarrow> \<forall>p \<in> set ps. p \<noteq> [] \<Longrightarrow> str_join sep ps \<noteq> []"
  by (induction sep ps rule: str_join.induct) auto

lemma str_join_mem_nonempty: "p \<in> set ps \<Longrightarrow> p \<noteq> [] \<Longrightarrow> str_join sep ps \<noteq> []"
  by (induction sep ps rule: str_join.induct) auto

lemma doubled_free: "c \<notin> set p \<Longrightarrow> \<not> doubled c p"
  by (induction c p rule: doubled.induct) auto

lemma doubled_Cons_other: "c \<noteq> a \<Longrightarrow> doubled c (a # s) = doubled c s"
  by (cases s) auto

lemma doubled_prefix_free:
  "c \<notin> set p \<Longrightarrow> doubled c (p @ c # r) = ((r \<noteq> [] \<and> hd r = c) \<or> doubled c r)"
proof (induction p)
  case Nil
  then show ?case by (cases r) auto
next
  case (Cons a p)
  then show ?case by (simp add: doubled_Cons_other)
qed

lemma str_join_clean:
  assumes "ps \<noteq> []" and "\<forall>p \<in> set ps. p \<noteq> [] \<and> c \<notin> set p"
  shows "str_join [c] ps \<noteq> [] \<and> hd (str_join [c] ps) \<noteq> c \<and> last (str_join [c] ps) \<noteq> c \<and>
         \<not> doubled c (str_join [c] ps)"
  using assms
proof (induction "[c]" ps rule: str_join.induct)
  case 1
  then show ?case by simp
next
  case (2 p)
  then show ?case
    by (auto simp add: doubled_free)
next
  case (3 p q ps)
  then have ih: "str_join [c] (q # ps) \<noteq> [] \<and> hd (str_join [c] (q # ps)) \<noteq> c \<and>
      last (str_join [c] (q # ps)) \<noteq> c \<and> \<not> doubled c (str_join [c] (q # ps))"
    by simp
  from 3 have p: "p \<noteq> []" "c \<notin> set p" by auto
  then have "hd p \<noteq> c" by (metis hd_in_set)
  then show ?case
    using ih p by (simp add: doubled_prefix_free)
qed


lemma str_join_contains: "p \<in> set ps \<Longrightarrow> \<exists>a b. str_join sep ps = a @ p @ b"
proof (induction sep ps rule: str_join.induct)
  case (1 sep)
  then show ?case by simp
next
  case (2 sep q)
  then have "str_join sep [q] = [] @ p @ []" by simp
  then show ?case by blast
next
  case (3 sep q r ps)
  show ?case
  proof (cases "p = q")
    case True
    then have "str_join sep (q # r # ps) = [] @ p @ (sep @ str_join sep (r # ps))" by simp
    then show ?thesis by blast
  next
    case False
    with 3 obtain a b where "str_join sep (r # ps) = a @ p @ b" by auto
    then have "str_join sep (q # r # ps) = (q @ sep @ a) @ p @ b" by simp
    then show ?thesis by blast
  qed
qed

lemma key_parts_eq:
  "key_parts st =
     [prompt_vars st Character, prompt_vars st Pose, prompt_vars st Style] @
     (if extra_curselection st \<noteq> [] then [str_join ''_'' (extras st)] else []) @
     [prompt_vars st Quality]"
  by (simp add: key_parts_def PROMPT_KEY_ORDER_def key_part_def)

lemma extras_Nil: "extras st = [] \<longleftrightarrow> extra_curselection st = []"
  by (simp add: extras_def)

lemma sum_count_key_parts_dash:
  "sum_list (map (\<lambda>p. count_list p (CHR ''-'')) (key_parts st)) =
   sum_list (map (\<lambda>n. count_list n (CHR ''-'')) (selected_names st))"
  by (cases "extra_curselection st = []") (simp_all add: key_parts_eq selected_names_def count_str_join extras_def)

lemma sum_count_key_parts_underscore:
  "sum_list (map (\<lambda>p. count_list p (CHR ''_'')) (key_parts st)) =
   sum_list (map (\<lambda>n. count_list n (CHR ''_'')) (selected_names st)) + (length (extras st) - 1)"
  by (cases "extra_curselection st = []") (simp_all add: key_parts_eq selected_names_def count_str_join extras_def)

lemma key_parts_nonempty:
  assumes "\<exists>n \<in> set (selected_names st). n \<noteq> []"
  shows "filter (\<lambda>p. p \<noteq> []) (key_parts st) \<noteq> []"
proof -
  from assms obtain n where n: "n \<in> set (selected_names st)" "n \<noteq> []" by blast
  show ?thesis
  proof (cases "n \<in> set (extras st)")
    case True
    then have "extra_curselection st \<noteq> []" using extras_Nil [of st] by auto
    moreover have "str_join ''_'' (extras st) \<noteq> []"
      using True n(2) by (rule str_join_mem_nonempty)
    ultimately show ?thesis by (simp add: key_parts_eq)
  next
    case False
    with n show ?thesis by (auto simp add: key_parts_eq selected_names_def)
  qed
qed

lemma key_parts_dash_free:
  assumes "\<forall>n \<in> set (selected_names st). CHR ''-'' \<notin> set n"
  shows "\<forall>p \<in> set (key_parts st). CHR ''-'' \<notin> set p"
proof -
  have "CHR ''-'' \<notin> set (str_join ''_'' (extras st))"
    using assms set_str_join [of "''_''" "extras st"] by (auto simp add: selected_names_def)
  then show ?thesis
    using assms by (auto simp add: key_parts_eq selected_names_def)
qed

lemma example_key:
  "final_key (example_app ((\<lambda>c. [])(Quality := ''q1'', Style := ''anime'')) [''x'', ''y''] [0, 1])
     = ''anime-x_y-q1''"
  "selected_names (example_app ((\<lambda>c. [])(Quality := ''q1'', Style := ''anime'')) [''x'', ''y''] [0, 1])
     = [[], [], ''anime'', ''x'', ''y'', ''q1'']"
  by (simp_all add: final_key_def key_parts_eq selected_names_def extras_def listbox_get_def example_app_def)

lemma find_absent: "n \<notin> frag_name ` set ps \<Longrightarrow> find (\<lambda>p. frag_name p = n) ps = None"
  by (auto simp add: find_None_iff)

lemma value_parts_cleared:
  assumes "cat \<noteq> Extra" and "prompt_vars st cat \<notin> frag_name ` set (prompt_presets st cat)"
  shows "value_parts (st\<lparr>prompt_vars := (prompt_vars st)(cat := [])\<rparr>) c = value_parts st c"
  using assms by (simp add: value_parts_def lookup_value_def append_value_def find_absent Let_def)

text \<open>
  Claim C2. With nothing selected in any category the composed key is empty; whenever
  the key is empty the handler stops with the warning and the window, the dictionary of
  generated prompts and its file included, is exactly as before; and no run ever changes
  what is stored under the empty key, so no empty-keyed entry is created.
\<close>

theorem empty_selection_rejected:
  "(prompt_vars st Quality = [] \<and> prompt_vars st Style = [] \<and> prompt_vars st Character = [] \<and>
    prompt_vars st Pose = [] \<and> extra_curselection st = [] \<longrightarrow> final_key st = []) \<and>
   (final_key st = [] \<longrightarrow> generate_prompt_string st = (st, InvalidSelection)) \<and>
   map_of (generated_prompts (fst (generate_prompt_string st))) [] = map_of (generated_prompts st) []"
  by (simp add: generate_prompt_string_def final_key_def key_parts_eq Let_def update_conv)

theorem empty_selection_rejected_witness:
  "final_key (example_app (\<lambda>c. []) [''x'', ''y''] []) = [] \<and>
   generate_prompt_string (example_app (\<lambda>c. []) [''x'', ''y''] [])
     = (example_app (\<lambda>c. []) [''x'', ''y''] [], InvalidSelection)"
  using empty_selection_rejected [of "example_app (\<lambda>c. []) [''x'', ''y''] []"]
  by (simp add: example_app_def)

text \<open>
  Claim C9. A single-select category whose selected name is in no fragment of that
  category adds nothing to the prompt text (the text is the one generated with the
  category unselected), while the name is one of the non-empty parts the key is joined
  from, so the key contains it; the entry is stored under that key.
\<close>

theorem stale_selection:
  assumes "cat \<noteq> Extra" and "prompt_vars st cat = n" and "n \<noteq> []"
    and "n \<notin> frag_name ` set (prompt_presets st cat)"
  shows "value_parts st cat = [] \<and>
         full_prompt st = full_prompt (st\<lparr>prompt_vars := (prompt_vars st)(cat := [])\<rparr>) \<and>
         n \<in> set (filter (\<lambda>p. p \<noteq> []) (key_parts st)) \<and>
         (\<exists>a b. final_key st = a @ n @ b) \<and>
         snd (generate_prompt_string st) = Generated (final_key st) \<and>
         map_of (generated_prompts (fst (generate_prompt_string st))) (final_key st)
           = Some (full_prompt st)"
proof -
  have v: "value_parts st cat = []"
    using assms by (simp add: value_parts_def lookup_value_def append_value_def find_absent)
  have "value_parts (st\<lparr>prompt_vars := (prompt_vars st)(cat := [])\<rparr>) = value_parts st"
    using assms by (intro ext value_parts_cleared) simp_all
  then have f: "full_prompt st = full_prompt (st\<lparr>prompt_vars := (prompt_vars st)(cat := [])\<rparr>)"
    by (simp add: full_prompt_def)
  have m: "n \<in> set (filter (\<lambda>p. p \<noteq> []) (key_parts st))"
    using assms by (cases cat) (auto simp add: key_parts_eq)
  then have e: "\<exists>a b. final_key st = a @ n @ b"
    unfolding final_key_def by (rule str_join_contains)
  have k: "final_key st \<noteq> []"
    using e assms(3) by auto
  have g: "snd (generate_prompt_string st) = Generated (final_key st) \<and>
         map_of (generated_prompts (fst (generate_prompt_string st))) (final_key st)
           = Some (full_prompt st)"
    using k by (simp add: generate_prompt_string_def Let_def update_conv)
  from v f m e g show ?thesis by blast
qed

theorem stale_selection_witness:
  "final_key (example_app ((\<lambda>c. [])(Quality := ''q1'', Character := ''miku'')) [] []) = ''miku-q1'' \<and>
   full_prompt (example_app ((\<lambda>c. [])(Quality := ''q1'', Character := ''miku'')) [] []) = ''masterpiece'' \<and>
   value_parts (example_app ((\<lambda>c. [])(Quality := ''q1'', Character := ''miku'')) [] []) Character = []"
proof -
  let ?st = "example_app ((\<lambda>c. [])(Quality := ''q1'', Character := ''miku'')) [] []"
  have h: "Character \<noteq> Extra" "prompt_vars ?st Character = ''miku''" "''miku'' \<noteq> []"
    "''miku'' \<notin> frag_name ` set (prompt_presets ?st Character)"
    by (simp_all add: example_app_def example_presets_def)
  have k: "final_key ?st = ''miku-q1''"
    by (simp add: final_key_def key_parts_eq extras_def example_app_def)
  have p: "full_prompt ?st = ''masterpiece''"
    by (simp add: full_prompt_def PROMPT_VALUE_ORDER_def value_parts_def lookup_value_def
        append_value_def py_strip_def example_app_def example_presets_def)
  show ?thesis
    using stale_selection [OF h] k p by simp
qed

text \<open>
  Claim C3, amended. With at least one non-empty selected name the key is not empty,
  and its separator characters are those of the selected names plus those of the
  joins: one \<open>-\<close> between consecutive non-empty parts and one \<open>_\<close> between consecutive
  selected extra names. When no selected name contains \<open>-\<close>, the key neither starts
  nor ends with \<open>-\<close> and has no \<open>--\<close>, whichever categories are unselected.
\<close>

theorem key_separators:
  assumes "\<exists>n \<in> set (selected_names st). n \<noteq> []"
  shows "final_key st \<noteq> [] \<and>
    count_list (final_key st) (CHR ''-'') =
      sum_list (map (\<lambda>n. count_list n (CHR ''-'')) (selected_names st)) +
      (length (filter (\<lambda>p. p \<noteq> []) (key_parts st)) - 1) \<and>
    count_list (final_key st) (CHR ''_'') =
      sum_list (map (\<lambda>n. count_list n (CHR ''_'')) (selected_names st)) + (length (extras st) - 1) \<and>
    ((\<forall>n \<in> set (selected_names st). CHR ''-'' \<notin> set n) \<longrightarrow>
       hd (final_key st) \<noteq> CHR ''-'' \<and> last (final_key st) \<noteq> CHR ''-'' \<and>
       \<not> doubled (CHR ''-'') (final_key st))"
proof -
  let ?ps = "filter (\<lambda>p. p \<noteq> []) (key_parts st)"
  have ne: "?ps \<noteq> []" using assms by (rule key_parts_nonempty)
  have k: "final_key st \<noteq> []"
    unfolding final_key_def using ne by (intro str_join_nonempty) auto
  have d: "count_list (final_key st) (CHR ''-'') =
      sum_list (map (\<lambda>n. count_list n (CHR ''-'')) (selected_names st)) + (length ?ps - 1)"
    by (simp add: final_key_def count_str_join sum_count_filter sum_count_key_parts_dash)
  have u: "count_list (final_key st) (CHR ''_'') =
      sum_list (map (\<lambda>n. count_list n (CHR ''_'')) (selected_names st)) + (length (extras st) - 1)"
    by (simp add: final_key_def count_str_join sum_count_filter sum_count_key_parts_underscore)
  have c: "(\<forall>n \<in> set (selected_names st). CHR ''-'' \<notin> set n) \<longrightarrow>
       hd (final_key st) \<noteq> CHR ''-'' \<and> last (final_key st) \<noteq> CHR ''-'' \<and>
       \<not> doubled (CHR ''-'') (final_key st)"
  proof
    assume "\<forall>n \<in> set (selected_names st). CHR ''-'' \<notin> set n"
    then have "\<forall>p \<in> set ?ps. p \<noteq> [] \<and> CHR ''-'' \<notin> set p"
      using key_parts_dash_free [of st] by auto
    with ne show "hd (final_key st) \<noteq> CHR ''-'' \<and> last (final_key st) \<noteq> CHR ''-'' \<and>
       \<not> doubled (CHR ''-'') (final_key st)"
      unfolding final_key_def using str_join_clean [of ?ps "CHR ''-''"] by blast
  qed
  from k d u c show ?thesis by blast
qed

theorem key_separators_witness:
  "(\<exists>n \<in> set (selected_names
       (example_app ((\<lambda>c. [])(Quality := ''q1'', Style := ''anime'')) [''x'', ''y''] [0, 1])). n \<noteq> []) \<and>
   final_key (example_app ((\<lambda>c. [])(Quality := ''q1'', Style := ''anime'')) [''x'', ''y''] [0, 1])
     = ''anime-x_y-q1'' \<and>
   \<not> doubled (CHR ''-'') ''anime-x_y-q1'' \<and> count_list ''anime-x_y-q1'' (CHR ''-'') = 2"
proof -
  let ?st = "example_app ((\<lambda>c. [])(Quality := ''q1'', Style := ''anime'')) [''x'', ''y''] [0, 1]"
  have h: "\<exists>n \<in> set (selected_names ?st). n \<noteq> []"
    unfolding example_key by simp
  have f: "\<forall>n \<in> set (selected_names ?st). CHR ''-'' \<notin> set n"
    unfolding example_key by simp
  show ?thesis
    using h f key_separators [OF h] unfolding example_key by simp
qed

text \<open>
  Claim C3 as stated allows no separator character but those of the joins. With the one
  selection \<open>spider-man\<close> for the character the key has a single part, so nothing is
  joined, and it contains \<open>-\<close>.
\<close>

theorem key_separators_counterexample:
  "final_key (example_app ((\<lambda>c. [])(Character := ''spider-man'')) [] []) = ''spider-man'' \<and>
   filter (\<lambda>p. p \<noteq> []) (key_parts (example_app ((\<lambda>c. [])(Character := ''spider-man'')) [] []))
     = [''spider-man''] \<and>
   count_list (final_key (example_app ((\<lambda>c. [])(Character := ''spider-man'')) [] [])) (CHR ''-'') = 1"
  by (simp add: final_key_def key_parts_eq extras_def example_app_def)

section \<open>Loading and saving the fragment presets\<close>

lemma dict_equal_iff: "dict_equal a b \<longleftrightarrow> map_of a = map_of b"
proof
  assume h: "dict_equal a b"
  show "map_of a = map_of b"
  proof
    fix k
    show "map_of a k = map_of b k"
    proof (cases "k \<in> fst ` set a \<union> fst ` set b")
      case True
      with h show ?thesis by (auto simp add: dict_equal_def list_all_iff)
    next
      case False
      then have "map_of a k = None" "map_of b k = None"
        by (simp_all add: map_of_eq_None_iff)
      then show ?thesis by simp
    qed
  qed
next
  assume "map_of a = map_of b"
  then show "dict_equal a b" by (simp add: dict_equal_def list_all_iff)
qed

lemma update_keys: "k \<in> fst ` set al \<Longrightarrow> map fst (AList.update k v al) = map fst al"
  by (induction al) auto

lemma load_loop_ok:
  assumes "\<forall>cat \<in> set cats. load_category ld cat = Inr (g cat)"
    and "set cats \<subseteq> fst ` set data"
  shows "\<exists>d. load_loop ld cats data = Inr d \<and> map fst d = map fst data \<and>
           (\<forall>c. map_of d c = (if c \<in> set cats \<and> g c \<noteq> None then g c else map_of data c))"
  using assms
proof (induction cats arbitrary: data)
  case Nil
  then show ?case by simp
next
  case (Cons cat cats)
  show ?case
  proof (cases "g cat")
    case None
    with Cons.prems have "load_loop ld (cat # cats) data = load_loop ld cats data" by simp
    moreover from Cons.IH [of data] Cons.prems obtain d where
      "load_loop ld cats data = Inr d" "map fst d = map fst data"
      "\<forall>c. map_of d c = (if c \<in> set cats \<and> g c \<noteq> None then g c else map_of data c)"
      by auto
    ultimately show ?thesis using None by auto
  next
    case (Some v)
    let ?data = "AList.update cat v data"
    from Cons.prems have k: "map fst ?data = map fst data" by (simp add: update_keys)
    with Cons.prems have "set cats \<subseteq> fst ` set ?data"
      by (metis insert_subset list.simps(15) set_map)
    with Cons.IH [of ?data] Cons.prems obtain d where d:
      "load_loop ld cats ?data = Inr d" "map fst d = map fst ?data"
      "\<forall>c. map_of d c = (if c \<in> set cats \<and> g c \<noteq> None then g c else map_of ?data c)"
      by auto
    from Cons.prems Some have "load_loop ld (cat # cats) data = load_loop ld cats ?data" by simp
    with d k Some show ?thesis by (auto simp add: update_conv)
  qed
qed


lemma alist_eq:
  assumes "map fst a = map fst b" and "distinct (map fst a)" and "map_of a = map_of b"
  shows "a = b"
proof -
  have "map_of (zip (map fst a) (map snd a)) = map_of (zip (map fst a) (map snd b))"
    using assms(1,3) by (metis zip_map_fst_snd)
  then have "map snd a = map snd b"
    using assms(1,2) by (intro map_of_zip_inject [of _ "map fst a"]) (simp_all, metis length_map)
  with assms(1) show ?thesis by (metis zip_map_fst_snd)
qed

lemma is_legacy_fragment_list: "is_fragment_list v \<Longrightarrow> is_legacy v = Inr False"
proof (cases v)
  case (JArr xs)
  assume "is_fragment_list v"
  with JArr show ?thesis
    by (cases xs)
      (auto simp add: is_fragment_list_def is_legacy_def py_truthy_def is_fragment_def
        split: json.splits)
qed (simp_all add: is_fragment_list_def)

lemma load_category_fragments:
  assumes "\<forall>v. map_of kvs cat = Some v \<longrightarrow> is_fragment_list v"
  shows "load_category (JObj kvs) cat = Inr (map_of kvs cat)"
proof (cases "map_of kvs cat")
  case None
  then have "cat \<notin> fst ` set kvs" by (simp add: map_of_eq_None_iff)
  with None show ?thesis
    by (simp add: load_category_def py_contains_def)
next
  case (Some v)
  then have "cat \<in> fst ` set kvs" by (metis map_of_eq_None_iff option.distinct(1))
  with Some assms show ?thesis
    by (simp add: load_category_def py_contains_def py_getitem_def is_legacy_fragment_list)
qed

lemma upgrade_string_list:
  "is_string_list v \<Longrightarrow> is_legacy v = Inr b \<Longrightarrow> (if b then upgrade_legacy v else v) = upgrade_legacy v"
proof (cases v)
  case (JArr xs)
  assume "is_string_list v" and "is_legacy v = Inr b"
  with JArr show ?thesis
    by (cases xs)
      (auto simp add: is_string_list_def is_legacy_def py_truthy_def upgrade_legacy_def
        split: json.splits if_splits)
qed (simp_all add: is_string_list_def)

lemma is_legacy_string_list: "is_string_list v \<Longrightarrow> \<exists>b. is_legacy v = Inr b"
  by (cases v) (auto simp add: is_string_list_def is_legacy_def py_truthy_def)

lemma load_category_strings:
  assumes "\<forall>v. map_of kvs cat = Some v \<longrightarrow> is_string_list v"
  shows "load_category (JObj kvs) cat = Inr (map_option upgrade_legacy (map_of kvs cat))"
proof (cases "map_of kvs cat")
  case None
  then have "cat \<notin> fst ` set kvs" by (simp add: map_of_eq_None_iff)
  with None show ?thesis
    by (simp add: load_category_def py_contains_def)
next
  case (Some v)
  then have c: "cat \<in> fst ` set kvs" by (metis map_of_eq_None_iff option.distinct(1))
  from Some assms have s: "is_string_list v" by simp
  then obtain b where b: "is_legacy v = Inr b" using is_legacy_string_list by blast
  with Some c upgrade_string_list [OF s b] show ?thesis
    by (simp add: load_category_def py_contains_def py_getitem_def)
qed

lemma initial_data:
  "map fst (map (\<lambda>cat. (cat, JArr [])) default_categories) = default_categories"
  "map_of (map (\<lambda>cat. (cat, JArr [])) default_categories) c =
     (if c \<in> set default_categories then Some (JArr []) else None)"
  "distinct default_categories"
  by (simp_all add: default_categories_def)


lemma well_formed_values:
  "well_formed (JObj kvs) \<Longrightarrow> map_of kvs cat = Some v \<Longrightarrow>
     cat \<in> set default_categories \<and> is_fragment_list v"
  by (auto simp add: well_formed_def list_all_iff dest!: map_of_SomeD)

lemma legacy_values:
  "legacy_document (JObj kvs) \<Longrightarrow> map_of kvs cat = Some v \<Longrightarrow>
     cat \<in> set default_categories \<and> is_string_list v"
  by (auto simp add: legacy_document_def list_all_iff dest!: map_of_SomeD)

lemma load_doc:
  assumes "\<forall>cat \<in> set default_categories. load_category ld cat = Inr (g cat)"
  shows "\<exists>d. load_prompt_presets (Doc ld) = Inr (d, False) \<and> map fst d = default_categories \<and>
           (\<forall>c. map_of d c =
              (if c \<in> set default_categories then (case g c of None \<Rightarrow> Some (JArr []) | Some v \<Rightarrow> Some v)
               else None))"
proof -
  let ?init = "map (\<lambda>cat. (cat, JArr [])) default_categories"
  have "set default_categories \<subseteq> fst ` set ?init"
    by (simp add: image_image)
  from load_loop_ok [OF assms this] obtain d where d:
    "load_loop ld default_categories ?init = Inr d" "map fst d = map fst ?init"
    "\<forall>c. map_of d c = (if c \<in> set default_categories \<and> g c \<noteq> None then g c else map_of ?init c)"
    by blast
  have "load_prompt_presets (Doc ld) = Inr (d, False)"
    using d(1) by (simp add: load_prompt_presets_def)
  moreover have "map fst d = default_categories"
    using d(2) unfolding initial_data(1) .
  moreover have "\<forall>c. map_of d c =
              (if c \<in> set default_categories then (case g c of None \<Rightarrow> Some (JArr []) | Some v \<Rightarrow> Some v)
               else None)"
    using d(3) by (auto simp add: initial_data split: option.splits)
  ultimately show ?thesis by blast
qed

lemma load_example_fragments:
  "load_prompt_presets (Doc (JObj example_fragments)) =
     Inr ([(''quality'', JArr [JObj [(''name'', JStr ''q1''), (''value'', JStr ''masterpiece'')]]),
           (''style'', JArr [JObj [(''name'', JStr ''anime''), (''value'', JStr ''anime style'')]]),
           (''character'', JArr []), (''pose'', JArr []), (''extra'', JArr [])], False)"
  by (simp add: load_prompt_presets_def default_categories_def load_category_def py_contains_def
      py_getitem_def is_legacy_def py_truthy_def example_fragments_def)

text \<open>
  Claim C6, amended. Loading a well-formed fragment document succeeds without the
  error box and gives the five categories in their fixed order, each with the list the
  document has for it, or with the empty list when the document has none. Saving
  writes exactly this dictionary, loading the saved document gives it back, and the
  saved document equals the original as a dictionary exactly when the original has all
  five categories. Loading a legacy document turns every category value that is a list
  of plain strings into the list of the pairs with \<open>name\<close> and \<open>value\<close> both equal to the
  string, and gives the empty list for a category the document lacks.
\<close>

theorem presets_round_trip:
  "(well_formed (JObj kvs) \<longrightarrow>
      (\<exists>data. load_prompt_presets (Doc (JObj kvs)) = Inr (data, False) \<and>
              map fst data = default_categories \<and>
              (\<forall>cat \<in> set default_categories.
                 map_of data cat = Some (case map_of kvs cat of None \<Rightarrow> JArr [] | Some v \<Rightarrow> v)) \<and>
              save_prompt_presets data = Doc (JObj data) \<and>
              load_prompt_presets (save_prompt_presets data) = Inr (data, False) \<and>
              (file_equal (save_prompt_presets data) (Doc (JObj kvs)) \<longleftrightarrow>
                 set default_categories \<subseteq> fst ` set kvs))) \<and>
   (legacy_document (JObj kvs) \<longrightarrow>
      (\<exists>data. load_prompt_presets (Doc (JObj kvs)) = Inr (data, False) \<and>
              map fst data = default_categories \<and>
              (\<forall>cat \<in> set default_categories.
                 map_of data cat =
                   Some (case map_of kvs cat of None \<Rightarrow> JArr [] | Some v \<Rightarrow> upgrade_legacy v)) \<and>
              (\<forall>cat ss. map_of kvs cat = Some (JArr (map JStr ss)) \<longrightarrow>
                 map_of data cat =
                   Some (JArr (map (\<lambda>s. JObj [(''name'', JStr s), (''value'', JStr s)]) ss)))))"
proof (intro conjI impI)
  assume wf: "well_formed (JObj kvs)"
  then have "\<forall>cat \<in> set default_categories. load_category (JObj kvs) cat = Inr (map_of kvs cat)"
    using well_formed_values [OF wf] by (intro ballI load_category_fragments) blast
  from load_doc [OF this] obtain d where d:
    "load_prompt_presets (Doc (JObj kvs)) = Inr (d, False)" "map fst d = default_categories"
    "\<forall>c. map_of d c =
       (if c \<in> set default_categories then (case map_of kvs c of None \<Rightarrow> Some (JArr []) | Some v \<Rightarrow> Some v)
        else None)"
    by blast
  have content: "\<forall>cat \<in> set default_categories.
      map_of d cat = Some (case map_of kvs cat of None \<Rightarrow> JArr [] | Some v \<Rightarrow> v)"
    using d(3) by (auto split: option.splits)
  have frag: "\<forall>c v. map_of d c = Some v \<longrightarrow> is_fragment_list v"
    using d(3) well_formed_values [OF wf]
    by (auto simp add: is_fragment_list_def split: if_splits option.splits)
  then have "\<forall>cat \<in> set default_categories. load_category (JObj d) cat = Inr (map_of d cat)"
    by (intro ballI load_category_fragments) blast
  from load_doc [OF this] obtain d2 where d2:
    "load_prompt_presets (Doc (JObj d)) = Inr (d2, False)" "map fst d2 = default_categories"
    "\<forall>c. map_of d2 c =
       (if c \<in> set default_categories then (case map_of d c of None \<Rightarrow> Some (JArr []) | Some v \<Rightarrow> Some v)
        else None)"
    by blast
  have "map_of d2 = map_of d"
    using d(3) d2(3) by (intro ext) (auto split: option.splits)
  then have "d2 = d"
    using d(2) d2(2) by (intro alist_eq) (simp_all add: initial_data)
  with d2(1) have reload: "load_prompt_presets (save_prompt_presets d) = Inr (d, False)"
    by (simp add: save_prompt_presets_def)
  have saved: "save_prompt_presets d = Doc (JObj d)"
    by (simp add: save_prompt_presets_def)
  have same: "file_equal (save_prompt_presets d) (Doc (JObj kvs)) \<longleftrightarrow>
                 set default_categories \<subseteq> fst ` set kvs"
  proof
    assume all: "set default_categories \<subseteq> fst ` set kvs"
    have "map_of d c = map_of kvs c" for c
    proof (cases "c \<in> set default_categories")
      case True
      with all have "map_of kvs c \<noteq> None" by (auto simp add: map_of_eq_None_iff)
      with True d(3) show ?thesis by (auto split: option.splits)
    next
      case False
      with well_formed_values [OF wf, of c] have "map_of kvs c = None"
        by (cases "map_of kvs c") auto
      with False d(3) show ?thesis by simp
    qed
    then have "map_of d = map_of kvs" by (intro ext)
    then show "file_equal (save_prompt_presets d) (Doc (JObj kvs))"
      by (simp add: file_equal_def save_prompt_presets_def dict_equal_iff)
  next
    assume "file_equal (save_prompt_presets d) (Doc (JObj kvs))"
    then have e: "map_of d = map_of kvs"
      by (simp add: file_equal_def save_prompt_presets_def dict_equal_iff)
    show "set default_categories \<subseteq> fst ` set kvs"
    proof
      fix c assume "c \<in> set default_categories"
      with content have "map_of d c \<noteq> None" by simp
      with e have "map_of kvs c \<noteq> None" by simp
      then show "c \<in> fst ` set kvs" by (simp add: map_of_eq_None_iff)
    qed
  qed
  from d(1) d(2) content saved reload same
  show "\<exists>data. load_prompt_presets (Doc (JObj kvs)) = Inr (data, False) \<and>
              map fst data = default_categories \<and>
              (\<forall>cat \<in> set default_categories.
                 map_of data cat = Some (case map_of kvs cat of None \<Rightarrow> JArr [] | Some v \<Rightarrow> v)) \<and>
              save_prompt_presets data = Doc (JObj data) \<and>
              load_prompt_presets (save_prompt_presets data) = Inr (data, False) \<and>
              (file_equal (save_prompt_presets data) (Doc (JObj kvs)) \<longleftrightarrow>
                 set default_categories \<subseteq> fst ` set kvs)"
    by blast
next
  assume lg: "legacy_document (JObj kvs)"
  then have "\<forall>cat \<in> set default_categories.
      load_category (JObj kvs) cat = Inr (map_option upgrade_legacy (map_of kvs cat))"
    using legacy_values [OF lg] by (intro ballI load_category_strings) blast
  from load_doc [OF this] obtain d where d:
    "load_prompt_presets (Doc (JObj kvs)) = Inr (d, False)" "map fst d = default_categories"
    "\<forall>c. map_of d c =
       (if c \<in> set default_categories
        then (case map_option upgrade_legacy (map_of kvs c) of None \<Rightarrow> Some (JArr []) | Some v \<Rightarrow> Some v)
        else None)"
    by blast
  have content: "\<forall>cat \<in> set default_categories.
      map_of d cat = Some (case map_of kvs cat of None \<Rightarrow> JArr [] | Some v \<Rightarrow> upgrade_legacy v)"
    using d(3) by (auto split: option.splits)
  have pairs: "map_of d cat = Some (JArr (map (\<lambda>s. JObj [(''name'', JStr s), (''value'', JStr s)]) ss))"
    if "map_of kvs cat = Some (JArr (map JStr ss))" for cat ss
  proof -
    from legacy_values [OF lg that] have "cat \<in> set default_categories" by simp
    with d(3) that show ?thesis
      by (simp add: upgrade_legacy_def name_value_def comp_def)
  qed
  from d(1) d(2) content pairs
  show "\<exists>data. load_prompt_presets (Doc (JObj kvs)) = Inr (data, False) \<and>
              map fst data = default_categories \<and>
              (\<forall>cat \<in> set default_categories.
                 map_of data cat =
                   Some (case map_of kvs cat of None \<Rightarrow> JArr [] | Some v \<Rightarrow> upgrade_legacy v)) \<and>
              (\<forall>cat ss. map_of kvs cat = Some (JArr (map JStr ss)) \<longrightarrow>
                 map_of data cat =
                   Some (JArr (map (\<lambda>s. JObj [(''name'', JStr s), (''value'', JStr s)]) ss)))"
    by blast
qed

theorem presets_round_trip_witness:
  "well_formed (JObj example_complete) \<and> set default_categories \<subseteq> fst ` set example_complete \<and>
   (\<exists>data. load_prompt_presets (Doc (JObj example_complete)) = Inr (data, False) \<and>
           load_prompt_presets (save_prompt_presets data) = Inr (data, False) \<and>
           file_equal (save_prompt_presets data) (Doc (JObj example_complete))) \<and>
   well_formed (JObj example_fragments) \<and>
   (\<exists>data. load_prompt_presets (Doc (JObj example_fragments)) = Inr (data, False) \<and>
           map_of data ''pose'' = Some (JArr []) \<and>
           map_of data ''style'' =
             Some (JArr [JObj [(''name'', JStr ''anime''), (''value'', JStr ''anime style'')]]) \<and>
           \<not> file_equal (save_prompt_presets data) (Doc (JObj example_fragments))) \<and>
   legacy_document (JObj example_legacy) \<and>
   (\<exists>data. load_prompt_presets (Doc (JObj example_legacy)) = Inr (data, False) \<and>
           map_of data ''quality'' =
             Some (JArr [JObj [(''name'', JStr ''masterpiece''), (''value'', JStr ''masterpiece'')],
                         JObj [(''name'', JStr ''best quality''), (''value'', JStr ''best quality'')]]))"
proof -
  have w: "well_formed (JObj example_complete)"
    by (simp add: well_formed_def example_complete_def default_categories_def is_fragment_list_def
        is_fragment_def)
  have a: "set default_categories \<subseteq> fst ` set example_complete"
    by (simp add: example_complete_def default_categories_def)
  have w2: "well_formed (JObj example_fragments)"
    by (simp add: well_formed_def example_fragments_def default_categories_def is_fragment_list_def
        is_fragment_def)
  have a2: "\<not> set default_categories \<subseteq> fst ` set example_fragments"
    "''pose'' \<in> set default_categories" "''style'' \<in> set default_categories"
    "map_of example_fragments ''pose'' = None"
    "map_of example_fragments ''style'' =
       Some (JArr [JObj [(''name'', JStr ''anime''), (''value'', JStr ''anime style'')]])"
    by (simp_all add: example_fragments_def default_categories_def)
  have l: "legacy_document (JObj example_legacy)"
    by (simp add: legacy_document_def example_legacy_def default_categories_def is_string_list_def)
  have q: "map_of example_legacy ''quality'' = Some (JArr (map JStr [''masterpiece'', ''best quality'']))"
    by (simp add: example_legacy_def)
  from presets_round_trip [of example_complete] w a
  have c: "\<exists>data. load_prompt_presets (Doc (JObj example_complete)) = Inr (data, False) \<and>
           load_prompt_presets (save_prompt_presets data) = Inr (data, False) \<and>
           file_equal (save_prompt_presets data) (Doc (JObj example_complete))"
    by blast
  from presets_round_trip [of example_fragments] w2 obtain data2 where d2:
    "load_prompt_presets (Doc (JObj example_fragments)) = Inr (data2, False)"
    "\<forall>cat \<in> set default_categories.
       map_of data2 cat = Some (case map_of example_fragments cat of None \<Rightarrow> JArr [] | Some v \<Rightarrow> v)"
    "file_equal (save_prompt_presets data2) (Doc (JObj example_fragments)) \<longleftrightarrow>
       set default_categories \<subseteq> fst ` set example_fragments"
    by blast
  from d2(2) a2 have "map_of data2 ''pose'' = Some (JArr [])"
    "map_of data2 ''style'' = Some (JArr [JObj [(''name'', JStr ''anime''), (''value'', JStr ''anime style'')]])"
    by auto
  with d2(1) d2(3) a2(1)
  have p: "\<exists>data. load_prompt_presets (Doc (JObj example_fragments)) = Inr (data, False) \<and>
           map_of data ''pose'' = Some (JArr []) \<and>
           map_of data ''style'' =
             Some (JArr [JObj [(''name'', JStr ''anime''), (''value'', JStr ''anime style'')]]) \<and>
           \<not> file_equal (save_prompt_presets data) (Doc (JObj example_fragments))"
    by blast
  from presets_round_trip [of example_legacy] l obtain data where d:
    "load_prompt_presets (Doc (JObj example_legacy)) = Inr (data, False)"
    "\<forall>cat ss. map_of example_legacy cat = Some (JArr (map JStr ss)) \<longrightarrow>
       map_of data cat = Some (JArr (map (\<lambda>s. JObj [(''name'', JStr s), (''value'', JStr s)]) ss))"
    by blast
  from d(2) q have "map_of data ''quality'' =
      Some (JArr (map (\<lambda>s. JObj [(''name'', JStr s), (''value'', JStr s)]) [''masterpiece'', ''best quality'']))"
    by blast
  with d(1) have e: "\<exists>data. load_prompt_presets (Doc (JObj example_legacy)) = Inr (data, False) \<and>
           map_of data ''quality'' =
             Some (JArr [JObj [(''name'', JStr ''masterpiece''), (''value'', JStr ''masterpiece'')],
                         JObj [(''name'', JStr ''best quality''), (''value'', JStr ''best quality'')]])"
    by simp
  from w a c w2 p l e show ?thesis by blast
qed

text \<open>
  Claim C6 as stated has the saved document equal the loaded one for every well-formed
  document. The fragments of the specification's own example have two categories; the
  loaded dictionary has five, three of them empty lists, and the document saved from it
  is not equal to the one that was loaded.
\<close>

theorem presets_round_trip_counterexample:
  "well_formed (JObj example_fragments) \<and>
   load_prompt_presets (Doc (JObj example_fragments)) =
     Inr ([(''quality'', JArr [JObj [(''name'', JStr ''q1''), (''value'', JStr ''masterpiece'')]]),
           (''style'', JArr [JObj [(''name'', JStr ''anime''), (''value'', JStr ''anime style'')]]),
           (''character'', JArr []), (''pose'', JArr []), (''extra'', JArr [])], False) \<and>
   \<not> file_equal
       (save_prompt_presets
          [(''quality'', JArr [JObj [(''name'', JStr ''q1''), (''value'', JStr ''masterpiece'')]]),
           (''style'', JArr [JObj [(''name'', JStr ''anime''), (''value'', JStr ''anime style'')]]),
           (''character'', JArr []), (''pose'', JArr []), (''extra'', JArr [])])
       (Doc (JObj example_fragments))"
proof -
  have w: "well_formed (JObj example_fragments)"
    by (simp add: well_formed_def example_fragments_def default_categories_def is_fragment_list_def
        is_fragment_def)
  have n: "\<not> file_equal
       (save_prompt_presets
          [(''quality'', JArr [JObj [(''name'', JStr ''q1''), (''value'', JStr ''masterpiece'')]]),
           (''style'', JArr [JObj [(''name'', JStr ''anime''), (''value'', JStr ''anime style'')]]),
           (''character'', JArr []), (''pose'', JArr []), (''extra'', JArr [])])
       (Doc (JObj example_fragments))"
    by (simp add: file_equal_def save_prompt_presets_def dict_equal_def example_fragments_def)
  from w load_example_fragments n show ?thesis by blast
qed

end
